theory Spec2Isabelle
  imports Main "HOL-Library.Multiset"
begin

section \<open>JavaScript strings\<close>

text \<open>
  A JavaScript string is modelled as a \<open>string\<close> (a list of characters). The functions
  below are the string methods the sources call: \<open>startsWith\<close>, \<open>includes\<close> (here \<open>includes_str\<close>).
\<close>

definition startsWith :: "string \<Rightarrow> string \<Rightarrow> bool" where
  "startsWith s p = (take (length p) s = p)"

fun includes_str :: "string \<Rightarrow> string \<Rightarrow> bool" where
  "includes_str [] k = (k = [])"
| "includes_str (c # s) k = (startsWith (c # s) k \<or> includes_str s k)"

text \<open>
  Characters are bytes, so the model covers ASCII text: \<open>isSpace\<close> is the ASCII part of
  the white space that \<open>trim\<close> removes and that \<open>\s\<close> matches in a regular expression
  (tab, line feed, vertical tab, form feed, carriage return, space), and \<open>toLowerCase\<close>
  maps the letters \<open>A\<close> to \<open>Z\<close>.
\<close>

definition isSpace :: "char \<Rightarrow> bool" where
  "isSpace c = (c = CHR '' '' \<or> (9::nat) \<le> of_char c \<and> of_char c \<le> (13::nat))"

definition trimStart :: "string \<Rightarrow> string" where
  "trimStart s = dropWhile isSpace s"

definition trim :: "string \<Rightarrow> string" where
  "trim s = rev (dropWhile isSpace (rev (dropWhile isSpace s)))"

definition lowerChar :: "char \<Rightarrow> char" where
  "lowerChar c =
     (if (65::nat) \<le> of_char c \<and> of_char c \<le> (90::nat)
      then char_of (of_char c + (32::nat)) else c)"

definition toLowerCase :: "string \<Rightarrow> string" where
  "toLowerCase s = map lowerChar s"

text \<open>\<open>s.slice(0, n)\<close> for a count \<open>n\<close>, and \<open>s.substring(n)\<close>.\<close>

definition slice0 :: "nat \<Rightarrow> string \<Rightarrow> string" where
  "slice0 n s = take n s"

definition substring :: "nat \<Rightarrow> string \<Rightarrow> string" where
  "substring n s = drop n s"

text \<open>
  \<open>s.split('.')\<close>, as \<open>splitOn CHR ''.'' s\<close>: the pieces between the separators, one
  more than there are separators.
\<close>

fun splitOn :: "char \<Rightarrow> string \<Rightarrow> string list" where
  "splitOn sep [] = [[]]"
| "splitOn sep (c # s) =
     (if c = sep then [] # splitOn sep s
      else (case splitOn sep s of
              [] \<Rightarrow> [[c]]
            | p # ps \<Rightarrow> (c # p) # ps))"

text \<open>Decimal digits of a natural number and of an integer, as \<open>String(n)\<close> prints them.\<close>

fun digitsOf :: "nat \<Rightarrow> string" where
  "digitsOf n =
     (if n < 10 then [char_of (48 + n)]
      else digitsOf (n div 10) @ [char_of (48 + n mod 10)])"

definition showInt :: "int \<Rightarrow> string" where
  "showInt i = (if i < 0 then CHR ''-'' # digitsOf (nat (- i)) else digitsOf (nat i))"

text \<open>\<open>xs.join(sep)\<close> for a list of strings.\<close>

fun joinWith :: "string \<Rightarrow> string list \<Rightarrow> string" where
  "joinWith sep [] = []"
| "joinWith sep [x] = x"
| "joinWith sep (x # y # ys) = x @ sep @ joinWith sep (y # ys)"

text \<open>A name between single quotes, as the runtime prints it in an error message.\<close>

definition quoted :: "string \<Rightarrow> string" where
  "quoted s = [CHR 0x27] @ s @ [CHR 0x27]"

section \<open>Errors\<close>

text \<open>
  The exceptions of the sources as values. \<open>ApiCallError\<close> and \<open>AbortError\<close> are the two
  classes declared in the API module, \<open>ApiCallError\<close> with its optional \<open>statusCode\<close>;
  \<open>Error\<close> is a plain \<open>new Error(message)\<close>, also one raised by a library, and
  \<open>TypeError\<close> is what the runtime raises on a property read of \<open>null\<close> or \<open>undefined\<close>.
  A function that can throw returns \<open>error + 'a\<close>, with \<open>Inl\<close> for the exception.
\<close>

datatype error =
    ApiCallError string "int option"
  | AbortError string
  | Error string
  | TypeError string

fun message :: "error \<Rightarrow> string" where
  "message (ApiCallError m _) = m"
| "message (AbortError m) = m"
| "message (Error m) = m"
| "message (TypeError m) = m"

section \<open>Authorization headers: \<open>convertBasicAuthToBase64\<close> and the header loop\<close>

text \<open>
  \<open>Buffer.from(s).toString('base64')\<close>: the bytes of the string, three at a time, as four
  letters of the Base64 alphabet, padded with \<open>=\<close>.
\<close>

definition base64Alphabet :: string where
  "base64Alphabet = ''ABCDEFGHIJKLMNOPQRSTUVWXYZabcdefghijklmnopqrstuvwxyz0123456789+/''"

definition base64Char :: "nat \<Rightarrow> char" where
  "base64Char n = base64Alphabet ! (n mod 64)"

fun toBase64 :: "string \<Rightarrow> string" where
  "toBase64 [] = []"
| "toBase64 [a] =
     (let x = (of_char a :: nat) in
      [base64Char (x div 4), base64Char ((x mod 4) * 16), CHR ''='', CHR ''=''])"
| "toBase64 [a, b] =
     (let x = (of_char a :: nat); y = (of_char b :: nat) in
      [base64Char (x div 4), base64Char ((x mod 4) * 16 + y div 16),
       base64Char ((y mod 16) * 4), CHR ''=''])"
| "toBase64 (a # b # c # rest) =
     (let x = (of_char a :: nat); y = (of_char b :: nat); z = (of_char c :: nat) in
      [base64Char (x div 4), base64Char ((x mod 4) * 16 + y div 16),
       base64Char ((y mod 16) * 4 + z div 64), base64Char (z mod 64)] @ toBase64 rest)"

text \<open>The test \<open>/^[A-Za-z0-9+/=]+$/\<close>: not empty, and every character of the class.\<close>

definition isBase64Char :: "char \<Rightarrow> bool" where
  "isBase64Char c = (c \<in> set base64Alphabet \<or> c = CHR ''='')"

definition seemsEncoded :: "string \<Rightarrow> bool" where
  "seemsEncoded s = (s \<noteq> [] \<and> list_all isBase64Char s)"

definition convertBasicAuthToBase64 :: "string \<Rightarrow> string" where
  "convertBasicAuthToBase64 headerValue =
     (if headerValue = [] then headerValue
      else
        let credentials = trim (substring (length ''Basic '') headerValue) in
        if \<not> seemsEncoded credentials
        then ''Basic '' @ toBase64 credentials
        else headerValue)"

text \<open>
  \<open>value.replace(/^(Basic|Bearer)\s+(Basic|Bearer)\s+/, '$1 $2')\<close>. \<open>schemeWord\<close> matches
  the group \<open>(Basic|Bearer)\<close> at the start of a string and \<open>spaces1\<close> the \<open>\s+\<close> after
  it, each returning what is left of the string. A scheme word does not start with white
  space, so the longest run of white space is the only one the pattern can match with.
  The replacement keeps both groups, with one space between them.
\<close>

definition schemeWord :: "string \<Rightarrow> (string \<times> string) option" where
  "schemeWord s =
     (if startsWith s ''Basic'' then Some (''Basic'', drop (length ''Basic'') s)
      else if startsWith s ''Bearer'' then Some (''Bearer'', drop (length ''Bearer'') s)
      else None)"

definition spaces1 :: "string \<Rightarrow> string option" where
  "spaces1 s =
     (case s of
        [] \<Rightarrow> None
      | c # cs \<Rightarrow> if isSpace c then Some (dropWhile isSpace cs) else None)"

definition replaceDoubleScheme :: "string \<Rightarrow> string" where
  "replaceDoubleScheme v =
     (case schemeWord v of
        None \<Rightarrow> v
      | Some (g1, r1) \<Rightarrow>
        (case spaces1 r1 of
           None \<Rightarrow> v
         | Some r2 \<Rightarrow>
           (case schemeWord r2 of
              None \<Rightarrow> v
            | Some (g2, r3) \<Rightarrow>
              (case spaces1 r3 of
                 None \<Rightarrow> v
               | Some r4 \<Rightarrow> g1 @ '' '' @ g2 @ r4))))"

text \<open>The body of the loop over the headers, for one header \<open>key\<close> and its value.\<close>

definition processHeaderValue :: "string \<Rightarrow> string \<Rightarrow> string" where
  "processHeaderValue key v =
     (let processedValue =
            (if toLowerCase key = ''authorization'' then replaceDoubleScheme v else v)
      in if toLowerCase key = ''authorization'' \<and> startsWith processedValue ''Basic ''
         then convertBasicAuthToBase64 processedValue
         else processedValue)"

section \<open>JavaScript values\<close>

text \<open>
  The values that flow through an API call: JSON, with \<open>undefined\<close> and the number
  \<open>NaN\<close>. Numbers are the integers that a JavaScript number holds exactly and prints
  in full (magnitude below \<open>2^53\<close>). An object is the list of its own properties in
  enumeration order; a lookup takes the first entry of a key. Functions and inherited
  members (the methods of arrays and strings) are outside the model, so a path segment is
  taken not to name one.
\<close>

datatype json =
    JUndefined
  | JNull
  | JNaN
  | JBool bool
  | JNum int
  | JStr string
  | JArr "json list"
  | JObj "(string \<times> json) list"

type_synonym obj = "(string \<times> json) list"

text \<open>Truthiness, as \<open>!v\<close>, \<open>v || w\<close> and \<open>if (v)\<close> read a value.\<close>

fun truthy :: "json \<Rightarrow> bool" where
  "truthy JUndefined = False"
| "truthy JNull = False"
| "truthy JNaN = False"
| "truthy (JBool b) = b"
| "truthy (JNum n) = (n \<noteq> 0)"
| "truthy (JStr s) = (s \<noteq> [])"
| "truthy (JArr xs) = True"
| "truthy (JObj kvs) = True"

definition orElse :: "json \<Rightarrow> json \<Rightarrow> json" where
  "orElse v w = (if truthy v then v else w)"

fun isArray :: "json \<Rightarrow> bool" where
  "isArray (JArr xs) = True"
| "isArray v = False"

text \<open>
  \<open>parseIndex p\<close> is the array index that the property name \<open>p\<close> denotes, when it is
  the decimal form of a number.
\<close>

definition isDigit :: "char \<Rightarrow> bool" where
  "isDigit c = ((48::nat) \<le> of_char c \<and> of_char c \<le> (57::nat))"

definition digitsValue :: "string \<Rightarrow> nat" where
  "digitsValue ds = foldl (\<lambda>acc c. 10 * acc + (of_char c - 48)) 0 ds"

definition parseIndex :: "string \<Rightarrow> nat option" where
  "parseIndex p =
     (if p \<noteq> [] \<and> list_all isDigit p \<and> (p = ''0'' \<or> hd p \<noteq> CHR ''0'')
      then Some (digitsValue p) else None)"

text \<open>
  \<open>v[p]\<close>: a \<open>TypeError\<close> on \<open>null\<close> and \<open>undefined\<close>, the own property of an
  object, an element or the length of an array or a string, and \<open>undefined\<close> otherwise.
\<close>

fun getProp :: "json \<Rightarrow> string \<Rightarrow> error + json" where
  "getProp JUndefined p =
     Inl (TypeError (''Cannot read properties of undefined (reading '' @ quoted p @ '')''))"
| "getProp JNull p =
     Inl (TypeError (''Cannot read properties of null (reading '' @ quoted p @ '')''))"
| "getProp (JObj kvs) p = Inr (case map_of kvs p of Some v \<Rightarrow> v | None \<Rightarrow> JUndefined)"
| "getProp (JArr xs) p =
     Inr (if p = ''length'' then JNum (int (length xs))
          else (case parseIndex p of
                  Some i \<Rightarrow> if i < length xs then xs ! i else JUndefined
                | None \<Rightarrow> JUndefined))"
| "getProp (JStr s) p =
     Inr (if p = ''length'' then JNum (int (length s))
          else (case parseIndex p of
                  Some i \<Rightarrow> if i < length s then JStr [s ! i] else JUndefined
                | None \<Rightarrow> JUndefined))"
| "getProp v p = Inr JUndefined"

text \<open>\<open>v?.[p]\<close>: \<open>undefined\<close> where \<open>v[p]\<close> would throw.\<close>

definition optProp :: "json \<Rightarrow> string \<Rightarrow> json" where
  "optProp v p = (case getProp v p of Inl e \<Rightarrow> JUndefined | Inr w \<Rightarrow> w)"

text \<open>\<open>Object.keys(v).length\<close> for a value that is not \<open>null\<close> or \<open>undefined\<close>.\<close>

fun keyCount :: "json \<Rightarrow> nat" where
  "keyCount (JObj kvs) = length kvs"
| "keyCount (JArr xs) = length xs"
| "keyCount (JStr s) = length s"
| "keyCount v = 0"

text \<open>
  \<open>{...a, ...b}\<close>: the properties of \<open>a\<close> with the values \<open>b\<close> gives them, then the
  properties only \<open>b\<close> has.
\<close>

definition objSpread :: "obj \<Rightarrow> obj \<Rightarrow> obj" where
  "objSpread a b =
     map (\<lambda>kv. (fst kv, case map_of b (fst kv) of Some v \<Rightarrow> v | None \<Rightarrow> snd kv)) a @
     filter (\<lambda>kv. map_of a (fst kv) = None) b"

text \<open>
  \<open>JSON.stringify\<close>. \<open>jsonText\<close> is the text of a value inside an array or an object,
  where \<open>undefined\<close> and \<open>NaN\<close> print as \<open>null\<close>; an object leaves out the properties
  whose value is \<open>undefined\<close>. At the top, \<open>JSON.stringify(undefined)\<close> is \<open>undefined\<close>
  and every other value gives a string.
\<close>

definition hexDigit :: "nat \<Rightarrow> char" where
  "hexDigit n = ''0123456789abcdef'' ! (n mod 16)"

definition escapeChar :: "char \<Rightarrow> string" where
  "escapeChar c =
     (if c = CHR 0x22 then [CHR 0x5C, CHR 0x22]
      else if c = CHR 0x5C then [CHR 0x5C, CHR 0x5C]
      else if c = CHR 0x08 then [CHR 0x5C, CHR ''b'']
      else if c = CHR 0x0C then [CHR 0x5C, CHR ''f'']
      else if c = CHR 0x0A then [CHR 0x5C, CHR ''n'']
      else if c = CHR 0x0D then [CHR 0x5C, CHR ''r'']
      else if c = CHR 0x09 then [CHR 0x5C, CHR ''t'']
      else if (of_char c :: nat) < 32
      then [CHR 0x5C, CHR ''u'', CHR ''0'', CHR ''0'',
            hexDigit ((of_char c :: nat) div 16), hexDigit (of_char c)]
      else [c])"

definition quoteString :: "string \<Rightarrow> string" where
  "quoteString s = [CHR 0x22] @ concat (map escapeChar s) @ [CHR 0x22]"

fun jsonText :: "json \<Rightarrow> string" where
  "jsonText JUndefined = ''null''"
| "jsonText JNull = ''null''"
| "jsonText JNaN = ''null''"
| "jsonText (JBool b) = (if b then ''true'' else ''false'')"
| "jsonText (JNum n) = showInt n"
| "jsonText (JStr s) = quoteString s"
| "jsonText (JArr xs) = ''['' @ joinWith '','' (map jsonText xs) @ '']''"
| "jsonText (JObj kvs) =
     ''{'' @ joinWith '',''
        (map (\<lambda>kv. quoteString (fst kv) @ '':'' @ jsonText (snd kv))
             (filter (\<lambda>kv. snd kv \<noteq> JUndefined) kvs)) @ ''}''"

definition JSON_stringify :: "json \<Rightarrow> json" where
  "JSON_stringify v = (if v = JUndefined then JUndefined else JStr (jsonText v))"

text \<open>\<open>String(v)\<close>, the text of a value inside a template literal.\<close>

fun toText :: "json \<Rightarrow> string" where
  "toText JUndefined = ''undefined''"
| "toText JNull = ''null''"
| "toText JNaN = ''NaN''"
| "toText (JBool b) = (if b then ''true'' else ''false'')"
| "toText (JNum n) = showInt n"
| "toText (JStr s) = s"
| "toText (JArr xs) = joinWith '','' (map (\<lambda>x. if x = JUndefined \<or> x = JNull then [] else toText x) xs)"
| "toText (JObj kvs) = ''[object Object]''"

text \<open>
  \<open>parseInt(s)\<close>: leading white space, an optional sign, then decimal digits, or
  hexadecimal digits after \<open>0x\<close>; \<open>None\<close> is \<open>NaN\<close>.
\<close>

definition isHexDigit :: "char \<Rightarrow> bool" where
  "isHexDigit c = (isDigit c \<or> c \<in> set ''abcdefABCDEF'')"

definition hexValue :: "char \<Rightarrow> nat" where
  "hexValue c =
     (if isDigit c then of_char c - 48
      else if c \<in> set ''abcdef'' then of_char c - 87
      else of_char c - 55)"

definition parseMagnitude :: "string \<Rightarrow> nat option" where
  "parseMagnitude s =
     (if startsWith s ''0x'' \<or> startsWith s ''0X''
      then (let ds = takeWhile isHexDigit (drop 2 s) in
            if ds = [] then None
            else Some (foldl (\<lambda>acc c. 16 * acc + hexValue c) 0 ds))
      else (let ds = takeWhile isDigit s in
            if ds = [] then None else Some (digitsValue ds)))"

definition parseInt :: "string \<Rightarrow> int option" where
  "parseInt str =
     (case trimStart str of
        [] \<Rightarrow> None
      | c # cs \<Rightarrow>
          if c = CHR ''-'' then map_option (\<lambda>n. - int n) (parseMagnitude cs)
          else if c = CHR ''+'' then map_option int (parseMagnitude cs)
          else map_option int (parseMagnitude (c # cs)))"

section \<open>The step executor: \<open>callEndpoint\<close>\<close>

subsection \<open>Configuration, requests and responses\<close>

datatype PaginationType = OFFSET_BASED | PAGE_BASED | CURSOR_BASED | DISABLED

fun paginationTypeName :: "PaginationType \<Rightarrow> string" where
  "paginationTypeName OFFSET_BASED = ''OFFSET_BASED''"
| "paginationTypeName PAGE_BASED = ''PAGE_BASED''"
| "paginationTypeName CURSOR_BASED = ''CURSOR_BASED''"
| "paginationTypeName DISABLED = ''DISABLED''"

record Pagination =
  ptype :: PaginationType
  pageSize :: "string option"
  cursorPath :: "string option"
  stopCondition :: "string option"

text \<open>
  \<open>ApiConfig\<close>, with the fields an API call reads; the field \<open>method\<close> is
  \<open>httpMethod\<close> here. An optional string is \<open>None\<close> when it is missing;
  \<open>urlHost\<close> and \<open>urlPath\<close> are the empty string when missing.
\<close>

record ApiConfig =
  urlHost :: string
  urlPath :: string
  instruction :: string
  httpMethod :: string
  queryParams :: "(string \<times> string) list option"
  headers :: "(string \<times> string) list option"
  body :: "string option"
  dataPath :: "string option"
  pagination :: "Pagination option"

record RequestOptions =
  timeout :: "int option"
  retries :: "int option"
  selfHealing :: "string option"

record AxiosRequestConfig =
  req_method :: string
  req_url :: string
  req_headers :: "(string \<times> string) list"
  req_data :: string
  req_params :: "(string \<times> string) list"
  req_timeout :: int

record AxiosResponse =
  status :: int
  data :: json
  resp_headers :: obj
  statusText :: string

text \<open>What \<open>callEndpoint\<close> returns: \<open>{data, statusCode, headers}\<close>.\<close>

record EndpointResult =
  res_data :: json
  statusCode :: int
  res_headers :: obj

text \<open>The one argument of \<open>callEndpoint\<close>: \<open>{endpoint, payload, credentials, options}\<close>.\<close>

record CallArgs =
  endpoint :: ApiConfig
  payload :: obj
  credentials :: obj
  options :: RequestOptions

record PageInfo =
  pi_page :: int
  pi_offset :: json
  pi_cursor :: json
  totalFetched :: nat

record StopEval =
  shouldStop :: bool
  stopError :: "string option"

subsection \<open>The functions and constants imported from other modules\<close>

text \<open>
  \<open>callEndpoint\<close> imports \<open>replaceVariables\<close>, \<open>composeUrl\<close>, \<open>callAxios\<close>,
  \<open>maskCredentials\<close> and \<open>evaluateStopCondition\<close> from the tools module, \<open>callPostgres\<close>,
  \<open>parseFile\<close>, and the constants of \<open>server_defaults\<close>. They are parameters of the
  model, gathered in one record, so that every property below holds for whatever they
  compute. \<open>callAxios\<close> and \<open>callPostgres\<close> reach the outside world: they are given the
  requests issued so far, so that the same request may be answered differently each time,
  and they return the response or the error they throw. \<open>maskCredentials\<close> takes the
  credentials when the call passes them.
\<close>

record Imports =
  replaceVariables :: "string \<Rightarrow> obj \<Rightarrow> string"
  composeUrl :: "string \<Rightarrow> string \<Rightarrow> string"
  callAxios :: "AxiosRequestConfig list \<Rightarrow> AxiosRequestConfig \<Rightarrow> RequestOptions \<Rightarrow> error + AxiosResponse"
  callPostgres :: "AxiosRequestConfig list \<Rightarrow> ApiConfig \<Rightarrow> obj \<Rightarrow> obj \<Rightarrow> RequestOptions \<Rightarrow> error + json"
  parseFile :: "string \<Rightarrow> error + json"
  evaluateStopCondition :: "string \<Rightarrow> json \<Rightarrow> PageInfo \<Rightarrow> StopEval"
  maskCredentials :: "string \<Rightarrow> obj option \<Rightarrow> string"
  MAX_PAGINATION_REQUESTS :: nat
  MAX_CALL_RETRIES :: int

subsection \<open>The variables of the pagination loop\<close>

text \<open>
  The \<open>let\<close> variables of \<open>callEndpoint\<close> except \<open>loopCounter\<close>, which the loop below
  carries as an argument. \<open>offset\<close> is a number that \<open>parseInt\<close> can turn into \<open>NaN\<close>
  (here \<open>None\<close>). The two hashes start as \<open>null\<close> and then hold what
  \<open>JSON.stringify\<close> returned. \<open>lastResponse\<close> starts as \<open>null\<close> (here \<open>None\<close>).
\<close>

record PageState =
  allResults :: "json list"
  page :: int
  offset :: "int option"
  cursor :: json
  hasMore :: bool
  seenResponseHashes :: "json set"
  previousResponseHash :: json
  firstResponseHash :: json
  hasValidData :: bool
  lastResponse :: "AxiosResponse option"

definition initialState :: PageState where
  "initialState = \<lparr>allResults = [], page = 1, offset = Some 0, cursor = JNull, hasMore = True,
     seenResponseHashes = {}, previousResponseHash = JNull, firstResponseHash = JNull,
     hasValidData = False, lastResponse = None\<rparr>"

text \<open>\<open>endpoint.pagination && endpoint.pagination.stopCondition\<close>, read as a condition.\<close>

definition theStopCondition :: "ApiConfig \<Rightarrow> string" where
  "theStopCondition ep =
     (case pagination ep of
        None \<Rightarrow> []
      | Some p \<Rightarrow> (case stopCondition p of None \<Rightarrow> [] | Some c \<Rightarrow> c))"

definition hasStopCondition :: "ApiConfig \<Rightarrow> bool" where
  "hasStopCondition ep = (theStopCondition ep \<noteq> [])"

definition maxRequests :: "Imports \<Rightarrow> ApiConfig \<Rightarrow> nat" where
  "maxRequests env ep = (if hasStopCondition ep then MAX_PAGINATION_REQUESTS env else 500)"

text \<open>\<open>endpoint.pagination?.pageSize\<close> and \<open>endpoint.pagination?.pageSize || "50"\<close>.\<close>

definition thePageSize :: "ApiConfig \<Rightarrow> string option" where
  "thePageSize ep = (case pagination ep of None \<Rightarrow> None | Some p \<Rightarrow> pageSize p)"

definition pageSizeOr50 :: "ApiConfig \<Rightarrow> string" where
  "pageSizeOr50 ep =
     (case thePageSize ep of None \<Rightarrow> ''50'' | Some [] \<Rightarrow> ''50'' | Some (c # cs) \<Rightarrow> c # cs)"

definition paginationTypeOf :: "ApiConfig \<Rightarrow> PaginationType option" where
  "paginationTypeOf ep = map_option ptype (pagination ep)"

definition numberJson :: "int option \<Rightarrow> json" where
  "numberJson n = (case n of None \<Rightarrow> JNaN | Some i \<Rightarrow> JNum i)"

subsection \<open>Building the request\<close>

definition paginationVars :: "ApiConfig \<Rightarrow> PageState \<Rightarrow> obj" where
  "paginationVars ep s =
     [(''page'', JNum (page s)), (''offset'', numberJson (offset s)), (''cursor'', cursor s),
      (''limit'', JStr (pageSizeOr50 ep)), (''pageSize'', JStr (pageSizeOr50 ep))]"

definition requestVars :: "CallArgs \<Rightarrow> PageState \<Rightarrow> obj" where
  "requestVars args s =
     objSpread (paginationVars (endpoint args) s) (objSpread (payload args) (credentials args))"

text \<open>
  The entries of the headers or of the query parameters after substitution, without those
  whose value is empty, \<open>"undefined"\<close> or \<open>"null"\<close>.
\<close>

definition keepValue :: "string \<times> string \<Rightarrow> bool" where
  "keepValue kv = (snd kv \<noteq> [] \<and> snd kv \<noteq> ''undefined'' \<and> snd kv \<noteq> ''null'')"

definition replacedEntries ::
  "Imports \<Rightarrow> (string \<times> string) list option \<Rightarrow> obj \<Rightarrow> (string \<times> string) list" where
  "replacedEntries env entries vars =
     filter keepValue
       (map (\<lambda>kv. (fst kv, replaceVariables env (snd kv) vars))
            (case entries of None \<Rightarrow> [] | Some es \<Rightarrow> es))"

definition processedHeaders :: "Imports \<Rightarrow> ApiConfig \<Rightarrow> obj \<Rightarrow> (string \<times> string) list" where
  "processedHeaders env ep vars =
     map (\<lambda>kv. (fst kv, processHeaderValue (fst kv) (snd kv)))
         (replacedEntries env (headers ep) vars)"

definition processedQueryParams :: "Imports \<Rightarrow> ApiConfig \<Rightarrow> obj \<Rightarrow> (string \<times> string) list" where
  "processedQueryParams env ep vars = replacedEntries env (queryParams ep) vars"

definition processedBody :: "Imports \<Rightarrow> ApiConfig \<Rightarrow> obj \<Rightarrow> string" where
  "processedBody env ep vars =
     (case body ep of
        None \<Rightarrow> []
      | Some [] \<Rightarrow> []
      | Some (c # cs) \<Rightarrow> replaceVariables env (c # cs) vars)"

definition processedUrlHost :: "Imports \<Rightarrow> CallArgs \<Rightarrow> PageState \<Rightarrow> string" where
  "processedUrlHost env args s = replaceVariables env (urlHost (endpoint args)) (requestVars args s)"

definition processedUrlPath :: "Imports \<Rightarrow> CallArgs \<Rightarrow> PageState \<Rightarrow> string" where
  "processedUrlPath env args s = replaceVariables env (urlPath (endpoint args)) (requestVars args s)"

definition isPostgresHost :: "string \<Rightarrow> bool" where
  "isPostgresHost h = (startsWith h ''postgres://'' \<or> startsWith h ''postgresql://'')"

definition postgresEndpoint :: "Imports \<Rightarrow> CallArgs \<Rightarrow> PageState \<Rightarrow> ApiConfig" where
  "postgresEndpoint env args s =
     (endpoint args)\<lparr>urlHost := processedUrlHost env args s,
                      urlPath := processedUrlPath env args s,
                      body := Some (processedBody env (endpoint args) (requestVars args s))\<rparr>"

definition timeoutOr60000 :: "RequestOptions \<Rightarrow> int" where
  "timeoutOr60000 opts = (case timeout opts of None \<Rightarrow> 60000 | Some t \<Rightarrow> if t = 0 then 60000 else t)"

definition axiosConfig :: "Imports \<Rightarrow> CallArgs \<Rightarrow> PageState \<Rightarrow> AxiosRequestConfig" where
  "axiosConfig env args s =
     \<lparr>req_method = httpMethod (endpoint args),
      req_url = composeUrl env (processedUrlHost env args s) (processedUrlPath env args s),
      req_headers = processedHeaders env (endpoint args) (requestVars args s),
      req_data = processedBody env (endpoint args) (requestVars args s),
      req_params = processedQueryParams env (endpoint args) (requestVars args s),
      req_timeout = timeoutOr60000 (options args)\<rparr>"

definition stringObj :: "(string \<times> string) list \<Rightarrow> json" where
  "stringObj kvs = JObj (map (\<lambda>kv. (fst kv, JStr (snd kv))) kvs)"

definition axiosConfigJson :: "AxiosRequestConfig \<Rightarrow> json" where
  "axiosConfigJson c =
     JObj [(''method'', JStr (req_method c)), (''url'', JStr (req_url c)),
           (''headers'', stringObj (req_headers c)), (''data'', JStr (req_data c)),
           (''params'', stringObj (req_params c)), (''timeout'', JNum (req_timeout c))]"

subsection \<open>Checking the response\<close>

definition nl :: string where
  "nl = [CHR 0x0A]"

text \<open>
  The condition of the first \<open>if\<close> after \<open>callAxios\<close>: a status other than 200 to 205,
  a truthy \<open>data.error\<close>, or a non-empty array \<open>data.errors\<close>.
\<close>

definition nonEmptyArray :: "json \<Rightarrow> bool" where
  "nonEmptyArray v = (case v of JArr xs \<Rightarrow> xs \<noteq> [] | _ \<Rightarrow> False)"

definition responseFailed :: "AxiosResponse \<Rightarrow> bool" where
  "responseFailed r =
     (status r \<notin> {200, 201, 202, 203, 204, 205} \<or>
      truthy (optProp (data r) ''error'') \<or>
      nonEmptyArray (optProp (data r) ''errors''))"

definition failureMessage :: "Imports \<Rightarrow> ApiConfig \<Rightarrow> AxiosRequestConfig \<Rightarrow> AxiosResponse \<Rightarrow> string" where
  "failureMessage env ep config r =
     (let error = toText (JSON_stringify
            (orElse (optProp (data r) ''error'')
              (orElse (optProp (data r) ''errors'')
                (orElse (data r) (orElse (JStr (statusText r)) (JStr ''undefined''))))));
          maskedConfig = maskCredentials env (toText (JSON_stringify (axiosConfigJson config))) None;
          message = httpMethod ep @ '' '' @ req_url config @ '' failed with status '' @
            showInt (status r) @ ''.'' @ nl @ ''Response: '' @ slice0 1000 error @ nl @
            ''config: '' @ maskedConfig
      in if status r = 429
         then (let retryAfter =
                     (if truthy (optProp (JObj (resp_headers r)) ''retry-after'')
                      then ''Retry-After: '' @ toText (optProp (JObj (resp_headers r)) ''retry-after'')
                      else ''No Retry-After header provided'')
               in ''Rate limit exceeded. '' @ retryAfter @
                  ''. Maximum wait time of 60s exceeded. '' @ nl @ ''        '' @ nl @
                  ''        '' @ message)
         else message)"

definition failureError :: "Imports \<Rightarrow> ApiConfig \<Rightarrow> AxiosRequestConfig \<Rightarrow> AxiosResponse \<Rightarrow> error" where
  "failureError env ep config r =
     ApiCallError (''API call failed with status '' @ showInt (status r) @ ''. Response: '' @
                   failureMessage env ep config r) (Some (status r))"

text \<open>The HTML check: a string body whose first 100 characters start an HTML page.\<close>

definition looksLikeHtml :: "string \<Rightarrow> bool" where
  "looksLikeHtml d =
     (startsWith (toLowerCase (trim (slice0 100 d))) ''<!doctype html'' \<or>
      startsWith (toLowerCase (trim (slice0 100 d))) ''<html'')"

definition isHtmlResponse :: "AxiosResponse \<Rightarrow> bool" where
  "isHtmlResponse r = (case data r of JStr d \<Rightarrow> looksLikeHtml d | _ \<Rightarrow> False)"

definition htmlError :: "Imports \<Rightarrow> CallArgs \<Rightarrow> AxiosRequestConfig \<Rightarrow> AxiosResponse \<Rightarrow> error" where
  "htmlError env args config r =
     (let maskedUrl = maskCredentials env (req_url config)
                        (Some (objSpread (credentials args) (payload args)))
      in ApiCallError (''Received HTML response instead of expected JSON data from '' @
           maskedUrl @ ''. '' @ nl @
           ''        This usually indicates an error page or invalid endpoint.'' @ nl @
           ''Response: '' @ slice0 2000 (toText (data r))) (Some (status r)))"

subsection \<open>Extracting the data\<close>

text \<open>
  The loop over the segments of \<open>dataPath\<close>: a segment with a falsy value, other than
  \<open>$\<close>, ends the walk and leaves the data as they are.
\<close>

fun walkDataPath :: "string list \<Rightarrow> json \<Rightarrow> error + json" where
  "walkDataPath [] responseData = Inr responseData"
| "walkDataPath (part # parts) responseData =
     (case getProp responseData part of
        Inl e \<Rightarrow> Inl e
      | Inr v \<Rightarrow>
          if \<not> truthy v \<and> part \<noteq> ''$'' then Inr responseData
          else walkDataPath parts (orElse v responseData))"

definition extractData :: "Imports \<Rightarrow> ApiConfig \<Rightarrow> json \<Rightarrow> error + json" where
  "extractData env ep d =
     (case (case d of
              JStr (c # cs) \<Rightarrow> parseFile env (c # cs)
            | _ \<Rightarrow> Inr d) of
        Inl e \<Rightarrow> Inl e
      | Inr responseData \<Rightarrow>
          (case dataPath ep of
             None \<Rightarrow> Inr responseData
           | Some [] \<Rightarrow> Inr responseData
           | Some (c # cs) \<Rightarrow> walkDataPath (splitOn CHR ''.'' (c # cs)) responseData))"

subsection \<open>Pagination with a stop condition\<close>

definition hasData :: "json \<Rightarrow> bool" where
  "hasData responseData =
     (case responseData of
        JArr xs \<Rightarrow> xs \<noteq> []
      | _ \<Rightarrow> truthy responseData \<and> 0 < keyCount responseData)"

definition paginationConfigError :: "Imports \<Rightarrow> CallArgs \<Rightarrow> AxiosRequestConfig \<Rightarrow> error" where
  "paginationConfigError env args config =
     (let vars = Some (objSpread (credentials args) (payload args));
          maskedBody = maskCredentials env (req_data config) vars;
          maskedParams = maskCredentials env
             (toText (JSON_stringify (stringObj (req_params config)))) vars;
          maskedHeaders = maskCredentials env
             (toText (JSON_stringify (stringObj (req_headers config)))) vars
      in Error (''Pagination configuration error: The first two API requests returned identical responses with valid data. '' @
                ''This indicates the pagination parameters are not being applied correctly. '' @
                ''Please check your pagination configuration (type: '' @
                (case paginationTypeOf (endpoint args) of
                   None \<Rightarrow> ''undefined'' | Some t \<Rightarrow> paginationTypeName t) @
                '', pageSize: '' @
                (case thePageSize (endpoint args) of None \<Rightarrow> ''undefined'' | Some p \<Rightarrow> p) @
                ''), '' @
                ''body: '' @ maskedBody @ '', queryParams: '' @ maskedParams @
                '', headers: '' @ maskedHeaders @ ''.''))"

definition stopConditionEmptyError :: "ApiConfig \<Rightarrow> error" where
  "stopConditionEmptyError ep =
     Error (''Stop condition error: The API returned no data on the first request, but the stop condition did not terminate pagination. '' @
            ''The stop condition should detect empty responses and stop immediately. '' @
            ''Current stop condition: '' @ theStopCondition ep)"

definition stopConditionEvalError :: "ApiConfig \<Rightarrow> string \<Rightarrow> error" where
  "stopConditionEvalError ep e =
     Error (''Pagination stop condition error: '' @ e @ nl @
            ''Stop condition: '' @ theStopCondition ep)"

text \<open>What is added to \<open>allResults\<close>: an array is concatenated, a truthy value pushed.\<close>

definition accumulate :: "json \<Rightarrow> json list \<Rightarrow> json list" where
  "accumulate responseData results =
     (case responseData of
        JArr xs \<Rightarrow> results @ xs
      | _ \<Rightarrow> if truthy responseData then results @ [responseData] else results)"

definition withStopCondition ::
  "Imports \<Rightarrow> CallArgs \<Rightarrow> nat \<Rightarrow> AxiosRequestConfig \<Rightarrow> AxiosResponse \<Rightarrow> json \<Rightarrow>
   PageState \<Rightarrow> error + PageState" where
  "withStopCondition env args loopCounter config r responseData s =
     (let currentResponseHash = JSON_stringify responseData;
          currentHasData = hasData responseData;
          s1 = (if loopCounter = 0
                then s\<lparr>firstResponseHash := currentResponseHash, hasValidData := currentHasData\<rparr>
                else s)
      in if loopCounter = 1 \<and> currentResponseHash = firstResponseHash s1 \<and>
            hasValidData s1 \<and> currentHasData
         then Inl (paginationConfigError env args config)
         else if loopCounter = 1 \<and> \<not> hasValidData s1 \<and> \<not> currentHasData
         then Inl (stopConditionEmptyError (endpoint args))
         else
           (case (if 1 < loopCounter \<and> currentResponseHash = previousResponseHash s1
                  then Inr (s1\<lparr>hasMore := False\<rparr>)
                  else
                    (let pageInfo = \<lparr>pi_page = page s1, pi_offset = numberJson (offset s1),
                                      pi_cursor = cursor s1,
                                      totalFetched = length (allResults s1)\<rparr>;
                         stopEval = evaluateStopCondition env
                                      (theStopCondition (endpoint args)) (data r) pageInfo
                     in (case stopError stopEval of
                           Some (c # cs) \<Rightarrow>
                             Inl (stopConditionEvalError (endpoint args) (c # cs))
                         | _ \<Rightarrow> Inr (s1\<lparr>hasMore := \<not> shouldStop stopEval\<rparr>)))) of
              Inl e \<Rightarrow> Inl e
            | Inr s2 \<Rightarrow>
                Inr (s2\<lparr>previousResponseHash := currentResponseHash,
                        allResults := accumulate responseData (allResults s2)\<rparr>)))"

subsection \<open>Pagination without a stop condition\<close>

text \<open>
  \<open>!pageSize || responseData.length < pageSize\<close> for the parsed page size, where
  \<open>None\<close> is \<open>NaN\<close>.
\<close>

definition lastPage :: "ApiConfig \<Rightarrow> json list \<Rightarrow> bool" where
  "lastPage ep xs =
     (case parseInt (pageSizeOr50 ep) of
        None \<Rightarrow> True
      | Some n \<Rightarrow> n = 0 \<or> int (length xs) < n)"

definition withoutStopCondition :: "ApiConfig \<Rightarrow> json \<Rightarrow> PageState \<Rightarrow> PageState" where
  "withoutStopCondition ep responseData s =
     (case responseData of
        JArr xs \<Rightarrow>
          (let s1 = (if lastPage ep xs then s\<lparr>hasMore := False\<rparr> else s);
               currentResponseHash = JSON_stringify responseData
           in if currentResponseHash \<notin> seenResponseHashes s1
              then s1\<lparr>seenResponseHashes := insert currentResponseHash (seenResponseHashes s1),
                      allResults := allResults s1 @ xs\<rparr>
              else s1\<lparr>hasMore := False\<rparr>)
      | _ \<Rightarrow>
          if truthy responseData \<and> allResults s = []
          then s\<lparr>allResults := allResults s @ [responseData], hasMore := False\<rparr>
          else s\<lparr>hasMore := False\<rparr>)"

subsection \<open>Advancing to the next page\<close>

text \<open>The cursor walk: \<open>nextCursor = nextCursor?.[part]\<close> for each segment of the path.\<close>

definition cursorParts :: "ApiConfig \<Rightarrow> string list" where
  "cursorParts ep =
     splitOn CHR ''.''
       (case pagination ep of
          None \<Rightarrow> ''next_cursor''
        | Some p \<Rightarrow> (case cursorPath p of
                       None \<Rightarrow> ''next_cursor''
                     | Some [] \<Rightarrow> ''next_cursor''
                     | Some (c # cs) \<Rightarrow> c # cs))"

definition nextCursor :: "ApiConfig \<Rightarrow> AxiosResponse \<Rightarrow> json" where
  "nextCursor ep r = foldl optProp (data r) (cursorParts ep)"

definition addOffset :: "int option \<Rightarrow> int option \<Rightarrow> int option" where
  "addOffset a b = (case a of None \<Rightarrow> None | Some x \<Rightarrow> map_option (\<lambda>y. x + y) b)"

definition advance :: "ApiConfig \<Rightarrow> AxiosResponse \<Rightarrow> PageState \<Rightarrow> PageState" where
  "advance ep r s =
     (case paginationTypeOf ep of
        Some PAGE_BASED \<Rightarrow> s\<lparr>page := page s + 1\<rparr>
      | Some OFFSET_BASED \<Rightarrow> s\<lparr>offset := addOffset (offset s) (parseInt (pageSizeOr50 ep))\<rparr>
      | Some CURSOR_BASED \<Rightarrow>
          (let c = nextCursor ep r
           in if \<not> truthy c then s\<lparr>cursor := c, hasMore := False\<rparr> else s\<lparr>cursor := c\<rparr>)
      | _ \<Rightarrow> s)"

subsection \<open>One iteration, the loop and the result\<close>

text \<open>
  What one iteration does with the response of its request: the two checks, the
  extraction, the accumulation and the step to the next page. \<open>loopCounter\<close> is the
  value the counter has during the iteration.
\<close>

definition handleResponse ::
  "Imports \<Rightarrow> CallArgs \<Rightarrow> nat \<Rightarrow> AxiosRequestConfig \<Rightarrow> AxiosResponse \<Rightarrow> PageState \<Rightarrow>
   error + PageState" where
  "handleResponse env args loopCounter config r s =
     (if responseFailed r then Inl (failureError env (endpoint args) config r)
      else if isHtmlResponse r then Inl (htmlError env args config r)
      else
        (case extractData env (endpoint args) (data r) of
           Inl e \<Rightarrow> Inl e
         | Inr responseData \<Rightarrow>
             (case (if hasStopCondition (endpoint args)
                    then withStopCondition env args loopCounter config r responseData s
                    else Inr (withoutStopCondition (endpoint args) responseData s)) of
                Inl e \<Rightarrow> Inl e
              | Inr s1 \<Rightarrow> Inr (advance (endpoint args) r (s1\<lparr>lastResponse := Some r\<rparr>)))))"

text \<open>The two \<open>return\<close> statements after the loop; \<open>lastResponse.status\<close> throws on \<open>null\<close>.\<close>

definition finish :: "ApiConfig \<Rightarrow> PageState \<Rightarrow> error + EndpointResult" where
  "finish ep s =
     (case lastResponse s of
        None \<Rightarrow> Inl (TypeError (''Cannot read properties of null (reading '' @ quoted ''status'' @ '')''))
      | Some r \<Rightarrow>
          if paginationTypeOf ep = Some CURSOR_BASED
          then Inr \<lparr>res_data = JObj [(''next_cursor'', cursor s), (''results'', JArr (allResults s))],
                    statusCode = status r, res_headers = resp_headers r\<rparr>
          else Inr \<lparr>res_data = (case allResults s of [x] \<Rightarrow> x | xs \<Rightarrow> JArr xs),
                    statusCode = status r, res_headers = resp_headers r\<rparr>)"

text \<open>
  The \<open>while\<close> loop. It returns the outcome of \<open>callEndpoint\<close> together with the list of
  the requests given to \<open>callAxios\<close> so far, the new ones at the end. A request counts as
  issued also when \<open>callAxios\<close> or the handling of its response throws.
\<close>

function callEndpointLoop ::
  "Imports \<Rightarrow> CallArgs \<Rightarrow> nat \<Rightarrow> PageState \<Rightarrow> AxiosRequestConfig list \<Rightarrow>
   (error + EndpointResult) \<times> AxiosRequestConfig list" where
  "callEndpointLoop env args loopCounter s issued =
     (if hasMore s \<and> loopCounter < maxRequests env (endpoint args)
      then
        if isPostgresHost (processedUrlHost env args s)
        then
          (case callPostgres env issued (postgresEndpoint env args s) (payload args)
                  (credentials args) (options args) of
             Inl e \<Rightarrow> (Inl e, issued)
           | Inr d \<Rightarrow> (Inr \<lparr>res_data = d, statusCode = 200, res_headers = []\<rparr>, issued))
        else
          (case callAxios env issued (axiosConfig env args s) (options args) of
             Inl e \<Rightarrow> (Inl e, issued @ [axiosConfig env args s])
           | Inr r \<Rightarrow>
               (case handleResponse env args loopCounter (axiosConfig env args s) r s of
                  Inl e \<Rightarrow> (Inl e, issued @ [axiosConfig env args s])
                | Inr s' \<Rightarrow>
                    callEndpointLoop env args (Suc loopCounter) s'
                      (issued @ [axiosConfig env args s])))
      else (finish (endpoint args) s, issued))"
  by pat_completeness auto
termination
  by (relation "measure (\<lambda>(env, args, loopCounter, s, issued).
        maxRequests env (endpoint args) - loopCounter)") auto

declare callEndpointLoop.simps [simp del]

definition callEndpoint ::
  "Imports \<Rightarrow> CallArgs \<Rightarrow> AxiosRequestConfig list \<Rightarrow>
   (error + EndpointResult) \<times> AxiosRequestConfig list" where
  "callEndpoint env args issued = callEndpointLoop env args 0 initialState issued"

section \<open>The self-healing loop: \<open>generateApiConfig\<close> and \<open>executeApiCall\<close>\<close>

subsection \<open>The language model and the conversation\<close>

record Message =
  role :: string
  content :: string

text \<open>
  What the language model returns to \<open>generateApiConfig\<close>: an \<open>error\<close> text, or the
  fields of a configuration (\<open>apiConfig\<close>). What it returns to \<open>evaluateResponse\<close>:
  \<open>{success, refactorNeeded, shortReason}\<close>.
\<close>

record Generated =
  gen_error :: "string option"
  gen_apiConfig :: "ApiConfig option"

record Evaluation =
  eval_success :: bool
  refactorNeeded :: bool
  shortReason :: string

text \<open>
  The imports of the self-healing loop. \<open>generateObject\<close> is the call of the language
  model inside \<open>generateApiConfig\<close>: it is given the retry count (which fixes the
  temperature) and the conversation, and returns the generated object with the updated
  conversation, or the error it throws. \<open>evaluateResponse\<close> stands for the model's verdict
  on a response; it is given the retry count, the data and the configuration.
  \<open>userPrompt\<close> is the text of the first user message, which \<open>generateApiConfig\<close> builds
  from the configuration, the payload, the credential names and the documentation search;
  \<open>systemPrompt\<close> is the constant \<open>SELF_HEALING_API_AGENT_PROMPT\<close>.
\<close>

record LlmImports =
  isSelfHealingEnabled :: "RequestOptions \<Rightarrow> bool"
  generateObject :: "nat \<Rightarrow> Message list \<Rightarrow> error + Generated \<times> Message list"
  evaluateResponse :: "nat \<Rightarrow> json \<Rightarrow> ApiConfig \<Rightarrow> error + Evaluation"
  systemPrompt :: string
  userPrompt :: "ApiConfig \<Rightarrow> obj \<Rightarrow> obj \<Rightarrow> string"

text \<open>
  \<open>generateApiConfig\<close>. An empty conversation first gets the system prompt and the user
  prompt; they are pushed onto the caller's array, so the caller sees them also when the
  call throws. The result is the outcome together with the caller's conversation after the
  call: the updated conversation on success, the conversation with the prompts otherwise.
\<close>

definition generateApiConfig ::
  "LlmImports \<Rightarrow> ApiConfig \<Rightarrow> obj \<Rightarrow> obj \<Rightarrow> nat \<Rightarrow> Message list \<Rightarrow>
   (error + ApiConfig) \<times> Message list" where
  "generateApiConfig llm apiConfig pl creds retryCount msgs =
     (let msgs1 = (if msgs = []
                   then [\<lparr>role = ''system'', content = systemPrompt llm\<rparr>,
                         \<lparr>role = ''user'', content = userPrompt llm apiConfig pl creds\<rparr>]
                   else msgs)
      in case generateObject llm retryCount msgs1 of
           Inl e \<Rightarrow> (Inl e, msgs1)
         | Inr (generatedConfig, updatedMessages) \<Rightarrow>
             (case gen_error generatedConfig of
                Some (c # cs) \<Rightarrow> (Inl (AbortError (c # cs)), msgs1)
              | _ \<Rightarrow>
                (case gen_apiConfig generatedConfig of
                   None \<Rightarrow>
                     (Inl (TypeError (''Cannot read properties of undefined (reading '' @
                                     quoted ''urlHost'' @ '')'')),
                      msgs1)
                 | Some g \<Rightarrow>
                     (Inr (g\<lparr>instruction := instruction apiConfig\<rparr>), updatedMessages))))"

subsection \<open>The variables of \<open>executeApiCall\<close>\<close>

text \<open>
  \<open>response\<close> is \<open>null\<close>, the object \<open>callEndpoint\<close> returned, or the object the
  \<open>catch\<close> block makes to hold a status code. \<open>currentEndpoint\<close> is the variable
  \<open>endpoint\<close>, which a repaired configuration replaces. \<open>retryCount\<close> is an argument of
  the loop below.
\<close>

record CallResponse =
  cr_data :: json
  cr_statusCode :: "int option"
  cr_headers :: "obj option"

record ExecState =
  response :: "CallResponse option"
  lastError :: "string option"
  messages :: "Message list"
  success :: bool
  currentEndpoint :: ApiConfig

definition retryBudget :: "Imports \<Rightarrow> CallArgs \<Rightarrow> int" where
  "retryBudget env args =
     (case retries (options args) of None \<Rightarrow> MAX_CALL_RETRIES env | Some r \<Rightarrow> r)"

subsection \<open>The \<open>try\<close> block\<close>

text \<open>
  The \<open>try\<close> block of one attempt: it returns \<open>None\<close> when it reaches \<open>break\<close> and the
  error when it throws, with the variables and the requests issued as they are then.
\<close>

definition healingNow :: "LlmImports \<Rightarrow> CallArgs \<Rightarrow> nat \<Rightarrow> bool" where
  "healingNow llm args retryCount = (0 < retryCount \<and> isSelfHealingEnabled llm (options args))"

definition noDataError :: error where
  "noDataError = Error ''No data returned from API. This could be due to a configuration error.''"

definition checkResponse ::
  "LlmImports \<Rightarrow> CallArgs \<Rightarrow> nat \<Rightarrow> json \<Rightarrow> ExecState \<Rightarrow> error option \<times> ExecState" where
  "checkResponse llm args retryCount d s =
     (if \<not> truthy d then (Some noDataError, s)
      else if healingNow llm args retryCount
      then (case evaluateResponse llm retryCount d (currentEndpoint s) of
              Inl e \<Rightarrow> (Some e, s)
            | Inr result \<Rightarrow>
                if eval_success result then (None, s\<lparr>success := True\<rparr>)
                else (Some (Error (shortReason result @ '' '' @
                                   slice0 1000 (toText (JSON_stringify d)))),
                      s\<lparr>success := False\<rparr>))
      else (None, s\<lparr>success := True\<rparr>))"

definition tryBlock ::
  "Imports \<Rightarrow> LlmImports \<Rightarrow> CallArgs \<Rightarrow> nat \<Rightarrow> ExecState \<Rightarrow> AxiosRequestConfig list \<Rightarrow>
   error option \<times> ExecState \<times> AxiosRequestConfig list" where
  "tryBlock env llm args retryCount s issued =
     (case (if healingNow llm args retryCount
            then (case generateApiConfig llm (currentEndpoint s) (payload args)
                         (credentials args) retryCount (messages s) of
                    (Inl e, msgs) \<Rightarrow> Inl (e, s\<lparr>messages := msgs\<rparr>)
                  | (Inr config, msgs) \<Rightarrow>
                      Inr (s\<lparr>currentEndpoint := config, messages := msgs\<rparr>))
            else Inr s) of
        Inl (e, s1) \<Rightarrow> (Some e, s1, issued)
      | Inr s1 \<Rightarrow>
          (case callEndpoint env (args\<lparr>endpoint := currentEndpoint s1\<rparr>) issued of
             (Inl e, issued1) \<Rightarrow> (Some e, s1, issued1)
           | (Inr res, issued1) \<Rightarrow>
               (let s2 = s1\<lparr>response := Some \<lparr>cr_data = res_data res,
                              cr_statusCode = Some (statusCode res),
                              cr_headers = Some (res_headers res)\<rparr>\<rparr>;
                    checked = checkResponse llm args retryCount (res_data res) s2
                in (fst checked, snd checked, issued1))))"

subsection \<open>The \<open>catch\<close> block\<close>

text \<open>
  \<open>error?.message || JSON.stringify(error || {})\<close>. The text of an error object is the
  text of its own properties: \<open>name\<close> for the two classes of the module, and
  \<open>statusCode\<close> when it is set.
\<close>

definition errorJson :: "error \<Rightarrow> string" where
  "errorJson e =
     (case e of
        ApiCallError m st \<Rightarrow>
          jsonText (JObj [(''name'', JStr ''ApiCallError''),
                          (''statusCode'', case st of None \<Rightarrow> JUndefined | Some c \<Rightarrow> JNum c)])
      | AbortError m \<Rightarrow> jsonText (JObj [(''name'', JStr ''AbortError'')])
      | _ \<Rightarrow> jsonText (JObj []))"

definition rawErrorString :: "error \<Rightarrow> string" where
  "rawErrorString e = (if message e \<noteq> [] then message e else errorJson e)"

definition isAbortError :: "error \<Rightarrow> bool" where
  "isAbortError e = (case e of AbortError m \<Rightarrow> True | _ \<Rightarrow> False)"

definition errorStatus :: "error \<Rightarrow> int option" where
  "errorStatus e = (case e of ApiCallError m st \<Rightarrow> st | _ \<Rightarrow> Some 500)"

text \<open>The message pushed to the conversation after a failed attempt.\<close>

definition fixMessage :: "string \<Rightarrow> Message" where
  "fixMessage raw =
     \<lparr>role = ''user'',
      content = ''There was an error with the configuration, please fix: '' @ slice0 2000 raw\<rparr>"

text \<open>\<open>!response?.statusCode\<close>: no response, no status code, or the status code 0.\<close>

definition lacksStatus :: "CallResponse option \<Rightarrow> bool" where
  "lacksStatus resp =
     (case resp of
        None \<Rightarrow> True
      | Some r \<Rightarrow> (case cr_statusCode r of None \<Rightarrow> True | Some c \<Rightarrow> c = 0))"

definition withStatus :: "CallResponse option \<Rightarrow> int option \<Rightarrow> CallResponse" where
  "withStatus resp st =
     (case resp of
        None \<Rightarrow> \<lparr>cr_data = JUndefined, cr_statusCode = st, cr_headers = None\<rparr>
      | Some r \<Rightarrow> r\<lparr>cr_statusCode := st\<rparr>)"

definition catchBlock :: "Imports \<Rightarrow> CallArgs \<Rightarrow> nat \<Rightarrow> error \<Rightarrow> ExecState \<Rightarrow> ExecState" where
  "catchBlock env args retryCount e s =
     (let raw = rawErrorString e;
          s1 = s\<lparr>lastError := Some (slice0 1000 (maskCredentials env raw (Some (credentials args))))\<rparr>;
          s2 = (if 0 < retryCount then s1\<lparr>messages := messages s1 @ [fixMessage raw]\<rparr> else s1)
      in if lacksStatus (response s2)
         then s2\<lparr>response := Some (withStatus (response s2) (errorStatus e))\<rparr>
         else s2)"

subsection \<open>The loop and the result\<close>

text \<open>
  What a run of \<open>executeApiCall\<close> leaves behind: its outcome, and for the statement of
  properties the conversation with the language model at the end, the outcome of each
  attempt in order (\<open>None\<close> for an attempt that reached \<open>break\<close>, the caught error
  otherwise), and the HTTP requests issued.
\<close>

record ExecResult =
  exec_data :: json
  exec_endpoint :: ApiConfig
  exec_statusCode :: "int option"
  exec_headers :: "obj option"

record ExecRun =
  outcome :: "error + ExecResult"
  conversation :: "Message list"
  attempts :: "error option list"
  requests :: "AxiosRequestConfig list"

definition failedAfter :: "nat \<Rightarrow> ExecState \<Rightarrow> error" where
  "failedAfter retryCount s =
     ApiCallError (''API call failed after '' @ showInt (int retryCount) @
                   '' retries. Last error: '' @
                   (case lastError s of None \<Rightarrow> ''null'' | Some m \<Rightarrow> m))
                  (case response s of None \<Rightarrow> None | Some r \<Rightarrow> cr_statusCode r)"

text \<open>The statements after the loop, for the final retry count and variables.\<close>

definition afterLoop ::
  "nat \<Rightarrow> ExecState \<Rightarrow> error option list \<Rightarrow> AxiosRequestConfig list \<Rightarrow> ExecRun" where
  "afterLoop retryCount s history issued =
     \<lparr>outcome =
        (if \<not> success s then Inl (failedAfter retryCount s)
         else Inr \<lparr>exec_data = (case response s of None \<Rightarrow> JUndefined | Some r \<Rightarrow> cr_data r),
                   exec_endpoint = currentEndpoint s,
                   exec_statusCode = (case response s of None \<Rightarrow> None | Some r \<Rightarrow> cr_statusCode r),
                   exec_headers = (case response s of None \<Rightarrow> None | Some r \<Rightarrow> cr_headers r)\<rparr>),
      conversation = messages s, attempts = history, requests = issued\<rparr>"

text \<open>
  The \<open>do ... while\<close> loop: the body runs, and the condition
  \<open>retryCount < (options?.retries !== undefined ? options.retries : MAX_CALL_RETRIES)\<close>
  is tested after \<open>retryCount++\<close>. A \<open>break\<close> leaves the loop without the increment.
\<close>

function executeLoop ::
  "Imports \<Rightarrow> LlmImports \<Rightarrow> CallArgs \<Rightarrow> nat \<Rightarrow> ExecState \<Rightarrow> error option list \<Rightarrow>
   AxiosRequestConfig list \<Rightarrow> ExecRun" where
  "executeLoop env llm args retryCount s history issued =
     (case tryBlock env llm args retryCount s issued of
        (None, s1, issued1) \<Rightarrow> afterLoop retryCount s1 (history @ [None]) issued1
      | (Some e, s1, issued1) \<Rightarrow>
          (let s2 = catchBlock env args retryCount e s1 in
           if isAbortError e then afterLoop retryCount s2 (history @ [Some e]) issued1
           else if int (Suc retryCount) < retryBudget env args
           then executeLoop env llm args (Suc retryCount) s2 (history @ [Some e]) issued1
           else afterLoop (Suc retryCount) s2 (history @ [Some e]) issued1))"
  by pat_completeness auto
termination
  by (relation "measure (\<lambda>(env, llm, args, retryCount, s, history, issued).
        nat (retryBudget env args - int retryCount))") auto

declare executeLoop.simps [simp del]

definition executeApiCall ::
  "Imports \<Rightarrow> LlmImports \<Rightarrow> CallArgs \<Rightarrow> AxiosRequestConfig list \<Rightarrow> ExecRun" where
  "executeApiCall env llm args issued =
     executeLoop env llm args 0
       \<lparr>response = None, lastError = None, messages = [], success = False,
        currentEndpoint = endpoint args\<rparr> [] issued"

subsection \<open>A test double for the imports\<close>

text \<open>
  The imports as the tests of the repository mock them: \<open>callAxios\<close> answers the
  \<open>n\<close>-th request with the \<open>n\<close>-th of a list of prepared responses and fails when the
  list is used up, substitution leaves a template as it is, \<open>composeUrl\<close> joins host and
  path, \<open>parseFile\<close> returns the text, the stop condition never fires, nothing is masked,
  and the limits have their default values.
\<close>

definition okResponse :: "json \<Rightarrow> AxiosResponse" where
  "okResponse d = \<lparr>status = 200, data = d, resp_headers = [], statusText = ''OK''\<rparr>"

definition replay ::
  "AxiosResponse list \<Rightarrow> AxiosRequestConfig list \<Rightarrow> AxiosRequestConfig \<Rightarrow> RequestOptions \<Rightarrow>
   error + AxiosResponse" where
  "replay responses issued config opts =
     (if length issued < length responses then Inr (responses ! length issued)
      else Inl (Error ''no response prepared''))"

definition mockImports :: "AxiosResponse list \<Rightarrow> Imports" where
  "mockImports responses =
     \<lparr>replaceVariables = (\<lambda>template vars. template),
      composeUrl = (\<lambda>host path. host @ path),
      callAxios = replay responses,
      callPostgres = (\<lambda>issued ep pl cr opts. Inr (JArr [JObj [(''one'', JNum 1)]])),
      parseFile = (\<lambda>text. Inr (JStr text)),
      evaluateStopCondition = (\<lambda>cond d info. \<lparr>shouldStop = False, stopError = None\<rparr>),
      maskCredentials = (\<lambda>text creds. text),
      MAX_PAGINATION_REQUESTS = 1000,
      MAX_CALL_RETRIES = 8\<rparr>"

definition noOptions :: RequestOptions where
  "noOptions = \<lparr>timeout = None, retries = None, selfHealing = None\<rparr>"

definition testEndpoint :: ApiConfig where
  "testEndpoint = \<lparr>urlHost = ''https://api.example.com'', urlPath = ''/v1/items'',
     instruction = ''get the items'', httpMethod = ''GET'', queryParams = None, headers = None,
     body = None, dataPath = None, pagination = None\<rparr>"

definition paged :: "PaginationType \<Rightarrow> string \<Rightarrow> Pagination" where
  "paged t sz = \<lparr>ptype = t, pageSize = Some sz, cursorPath = None, stopCondition = None\<rparr>"

definition callOf :: "ApiConfig \<Rightarrow> CallArgs" where
  "callOf ep = \<lparr>endpoint = ep, payload = [], credentials = [], options = noOptions\<rparr>"

definition item :: "int \<Rightarrow> json" where
  "item n = JObj [(''id'', JNum n)]"

text \<open>Page-based pagination with page size 2, and the two pages of the first scenario.\<close>

definition pageBasedCall :: CallArgs where
  "pageBasedCall = callOf (testEndpoint\<lparr>pagination := Some (paged PAGE_BASED ''2'')\<rparr>)"

definition twoPages :: "AxiosResponse list" where
  "twoPages = [okResponse (JArr [item 1, item 2]), okResponse (JArr [item 3])]"

text \<open>A server that answers every request with the same full page.\<close>

definition samePages :: "AxiosResponse list" where
  "samePages = replicate 5 (okResponse (JArr [item 1, item 2]))"

text \<open>Cursor-based pagination, with the two responses of the cursor scenario.\<close>

definition cursorCall :: CallArgs where
  "cursorCall = callOf (testEndpoint\<lparr>dataPath := Some ''data'',
     pagination := Some ((paged CURSOR_BASED ''2'')\<lparr>cursorPath := Some ''meta.next_cursor''\<rparr>)\<rparr>)"

definition cursorPages :: "AxiosResponse list" where
  "cursorPages =
     [okResponse (JObj [(''data'', JArr [item 1, item 2]),
                        (''meta'', JObj [(''next_cursor'', JStr ''c1'')])]),
      okResponse (JObj [(''data'', JArr [item 3]),
                        (''meta'', JObj [(''next_cursor'', JNull)])])]"

text \<open>A cursor-based endpoint that answers with a single object.\<close>

definition singleObjectCall :: CallArgs where
  "singleObjectCall = callOf (testEndpoint\<lparr>pagination := Some (paged CURSOR_BASED ''2'')\<rparr>)"

definition singleObjectPage :: "AxiosResponse list" where
  "singleObjectPage = [okResponse (JObj [(''id'', JNum 1), (''name'', JStr ''one'')])]"

text \<open>Pagination with a stop condition that never fires.\<close>

definition stopConditionCall :: CallArgs where
  "stopConditionCall = callOf (testEndpoint\<lparr>pagination :=
     Some ((paged PAGE_BASED ''2'')\<lparr>stopCondition := Some ''response.data.length = 0''\<rparr>)\<rparr>)"

text \<open>A Postgres endpoint.\<close>

definition postgresCall :: CallArgs where
  "postgresCall = callOf (testEndpoint\<lparr>urlHost := ''postgres://user:pw@db:5432'',
     urlPath := ''/shop'', body := Some ''select 1 as one''\<rparr>)"

subsection \<open>Reading a run from its requests\<close>

text \<open>
  For the list \<open>log\<close> of the requests of a run that started with no earlier request,
  \<open>responseAt\<close> is what \<open>callAxios\<close> answered to request number \<open>j\<close> (counting from 0), and
  \<open>pageAt\<close> the data extracted from that answer.
\<close>

definition responseAt ::
  "Imports \<Rightarrow> CallArgs \<Rightarrow> AxiosRequestConfig list \<Rightarrow> nat \<Rightarrow> error + AxiosResponse" where
  "responseAt env args log j = callAxios env (take j log) (log ! j) (options args)"

definition pageAt ::
  "Imports \<Rightarrow> CallArgs \<Rightarrow> AxiosRequestConfig list \<Rightarrow> nat \<Rightarrow> error + json" where
  "pageAt env args log j =
     (case responseAt env args log j of
        Inl e \<Rightarrow> Inl e
      | Inr r \<Rightarrow> extractData env (endpoint args) (data r))"


subsection \<open>A test double for the self-healing loop\<close>

text \<open>
  Modelled from the spec: \<open>maskCredentials\<close> is imported from the tools module, which is
  not among the sources; the spec says that it masks credential values, the substrings
  that match a known credential. \<open>maskValues\<close> replaces every occurrence of every
  non-empty credential value by \<open>{masked_\<close>\<open>name\<close>\<open>}\<close>. It is used in examples only.
\<close>

function replaceAll :: "string \<Rightarrow> string \<Rightarrow> string \<Rightarrow> string" where
  "replaceAll pat rep [] = []"
| "replaceAll pat rep (c # s) =
     (if pat \<noteq> [] \<and> startsWith (c # s) pat
      then rep @ replaceAll pat rep (drop (length pat) (c # s))
      else c # replaceAll pat rep s)"
  by pat_completeness auto
termination
  by (relation "measure (\<lambda>(pat, rep, s). length s)") auto

definition maskValue :: "string \<Rightarrow> string \<times> json \<Rightarrow> string" where
  "maskValue text kv =
     (case snd kv of
        JStr (c # cs) \<Rightarrow> replaceAll (c # cs) (''{masked_'' @ fst kv @ ''}'') text
      | _ \<Rightarrow> text)"

definition maskValues :: "string \<Rightarrow> obj option \<Rightarrow> string" where
  "maskValues text creds = (case creds of None \<Rightarrow> text | Some cs \<Rightarrow> foldl maskValue text cs)"

text \<open>
  A language model that returns the configuration it is asked to repair, adds its answer
  to the conversation, and accepts every response; self-healing is enabled.
\<close>

definition mockLlm :: "ApiConfig \<Rightarrow> LlmImports" where
  "mockLlm ep =
     \<lparr>isSelfHealingEnabled = (\<lambda>opts. True),
      generateObject = (\<lambda>retryCount msgs.
         Inr (\<lparr>gen_error = None, gen_apiConfig = Some ep\<rparr>,
              msgs @ [\<lparr>role = ''assistant'', content = ''submit''\<rparr>])),
      evaluateResponse = (\<lambda>retryCount d config.
         Inr \<lparr>eval_success = True, refactorNeeded = False, shortReason = []\<rparr>),
      systemPrompt = ''You are an API configuration assistant.'',
      userPrompt = (\<lambda>config pl creds. ''Generate API configuration'')\<rparr>"

text \<open>
  A call with an API key among its credentials, to a server that cannot be reached:
  \<open>callAxios\<close> throws, and the message of its error names the key of the request.
\<close>

definition keyCall :: "int option \<Rightarrow> CallArgs" where
  "keyCall n = \<lparr>endpoint = testEndpoint, payload = [],
     credentials = [(''api_key'', JStr ''s3cr3t'')],
     options = \<lparr>timeout = None, retries = n, selfHealing = None\<rparr>\<rparr>"

definition unreachable :: Imports where
  "unreachable = (mockImports [])\<lparr>
     callAxios := (\<lambda>issued config opts. Inl (Error ''no route for key s3cr3t'')),
     maskCredentials := maskValues\<rparr>"

section \<open>The run table of \<open>PostgresService\<close>: \<open>createRun\<close> and \<open>listRuns\<close>\<close>

text \<open>
  A run as the datastore sees it: its id, the id of its configuration snapshot
  (\<open>run.config?.id\<close>), and the two timestamps, in milliseconds since the epoch. The
  remaining fields of a run (success, data, error) are carried in \<open>run_rest\<close>; the
  datastore copies them unread.
\<close>

record RunResult =
  run_id :: string
  run_config_id :: "string option"
  startedAt :: "int option"
  completedAt :: "int option"
  run_rest :: string

text \<open>
  A row of the table \<open>runs\<close>: the columns \<open>id\<close>, \<open>config_id\<close>, \<open>org_id\<close>, \<open>data\<close>,
  \<open>started_at\<close> and \<open>completed_at\<close>; \<open>None\<close> is SQL's \<open>NULL\<close>. The table is the list of
  its rows, and its primary key is \<open>(id, org_id)\<close>.
\<close>

record RunRow =
  row_id :: string
  config_id :: "string option"
  org_id :: string
  row_data :: RunResult
  started_at :: "int option"
  completed_at :: "int option"

text \<open>\<open>orgId || ''\<close>: a missing or empty organisation id is the empty string.\<close>

definition orgParam :: "string option \<Rightarrow> string" where
  "orgParam orgId = (case orgId of None \<Rightarrow> [] | Some s \<Rightarrow> s)"

text \<open>
  \<open>createRun\<close>: \<open>INSERT ... ON CONFLICT (id, org_id) DO UPDATE SET data, started_at,
  completed_at\<close>. A row with the same key keeps its \<open>config_id\<close>; otherwise a row is added.
\<close>

definition sameKey :: "RunResult \<Rightarrow> string \<Rightarrow> RunRow \<Rightarrow> bool" where
  "sameKey run org r = (row_id r = run_id run \<and> org_id r = org)"

definition createRun :: "RunResult \<Rightarrow> string option \<Rightarrow> RunRow list \<Rightarrow> RunRow list" where
  "createRun run orgId tbl =
     (let org = orgParam orgId in
      if list_ex (sameKey run org) tbl
      then map (\<lambda>r. if sameKey run org r
                      then r\<lparr>row_data := run, started_at := startedAt run,
                             completed_at := completedAt run\<rparr>
                      else r) tbl
      else tbl @ [\<lparr>row_id = run_id run, config_id = run_config_id run, org_id = org,
                    row_data = run, started_at = startedAt run,
                    completed_at = completedAt run\<rparr>])"

text \<open>
  The \<open>WHERE\<close> clause of both queries of \<open>listRuns\<close>: \<open>org_id = $1\<close>, and \<open>config_id = $2\<close>
  when \<open>configId\<close> is truthy (given and not empty). A \<open>NULL\<close> \<open>config_id\<close> equals nothing.
\<close>

definition whereClause :: "string option \<Rightarrow> string option \<Rightarrow> RunRow \<Rightarrow> bool" where
  "whereClause configId orgId r =
     (org_id r = orgParam orgId \<and>
      (case configId of
         None \<Rightarrow> True
       | Some [] \<Rightarrow> True
       | Some (c # cs) \<Rightarrow> config_id r = Some (c # cs)))"

text \<open>
  \<open>ORDER BY started_at DESC\<close>: later timestamps first, and PostgreSQL puts \<open>NULL\<close> before
  every value in a descending order. \<open>notBefore a b\<close> says that a row with timestamp \<open>a\<close>
  may stand before a row with timestamp \<open>b\<close>. SQL leaves the order of rows with equal
  timestamps to the engine, and it may differ from one query to the next. So the order in
  which the engine returns the selected rows is a parameter \<open>ord\<close> of \<open>listRuns\<close>, and
  \<open>descendingOrder ord\<close> says what \<open>ORDER BY started_at DESC\<close> promises of it: the same
  rows, in descending order of \<open>started_at\<close>.
\<close>

fun notBefore :: "int option \<Rightarrow> int option \<Rightarrow> bool" where
  "notBefore None b = True"
| "notBefore (Some x) None = False"
| "notBefore (Some x) (Some y) = (y \<le> x)"

definition descendingOrder :: "(RunRow list \<Rightarrow> RunRow list) \<Rightarrow> bool" where
  "descendingOrder ord =
     (\<forall>rows. mset (ord rows) = mset rows \<and>
             sorted_wrt (\<lambda>a b. notBefore (started_at a) (started_at b)) (ord rows))"

text \<open>One such order, used in the examples: an insertion sort, ties in table order.\<close>

fun insertDesc :: "RunRow \<Rightarrow> RunRow list \<Rightarrow> RunRow list" where
  "insertDesc r [] = [r]"
| "insertDesc r (q # qs) =
     (if notBefore (started_at r) (started_at q) then r # q # qs else q # insertDesc r qs)"

definition orderByStartedAtDesc :: "RunRow list \<Rightarrow> RunRow list" where
  "orderByStartedAtDesc rows = foldr insertDesc rows []"

text \<open>
  The item built from a selected row: the stored run with \<open>id\<close> from the row. The stored
  timestamps are read back with \<open>new Date\<close>, which gives the stored instant again.
\<close>

definition rowItem :: "RunRow \<Rightarrow> RunResult" where
  "rowItem row = (row_data row)\<lparr>run_id := row_id row\<rparr>"

text \<open>
  \<open>listRuns(limit, offset, configId, orgId)\<close> (the offset is \<open>offs\<close> here) over the
  table \<open>tbl\<close>: the count query, then the select query with
  \<open>ORDER BY started_at DESC LIMIT limit OFFSET offset\<close>. PostgreSQL rejects a negative
  \<open>OFFSET\<close> or \<open>LIMIT\<close>, the offset first, and the error of the query is the error of the
  call.
\<close>

record RunList =
  items :: "RunResult list"
  total :: nat

definition listRuns ::
  "(RunRow list \<Rightarrow> RunRow list) \<Rightarrow> int \<Rightarrow> int \<Rightarrow> string option \<Rightarrow> string option \<Rightarrow>
   RunRow list \<Rightarrow> error + RunList" where
  "listRuns ord limit offs configId orgId tbl =
     (let count = length (filter (whereClause configId orgId) tbl) in
      if offs < 0 then Inl (Error ''OFFSET must not be negative'')
      else if limit < 0 then Inl (Error ''LIMIT must not be negative'')
      else
        let rows = take (nat limit) (drop (nat offs)
                     (ord (filter (whereClause configId orgId) tbl)))
        in Inr \<lparr>items = map rowItem rows, total = count\<rparr>)"

text \<open>
  Two properties a table can have. \<open>tableOk\<close>: the column \<open>started_at\<close> of a row is the
  \<open>startedAt\<close> of the run stored in its \<open>data\<close>. \<open>configOk\<close>: the column \<open>config_id\<close> of
  a row is the id of the configuration of the run stored in its \<open>data\<close>.
\<close>

definition tableOk :: "RunRow list \<Rightarrow> bool" where
  "tableOk tbl = list_all (\<lambda>r. started_at r = startedAt (row_data r)) tbl"

definition configOk :: "RunRow list \<Rightarrow> bool" where
  "configOk tbl = list_all (\<lambda>r. config_id r = run_config_id (row_data r)) tbl"

text \<open>Three runs of two configurations, stored for one organisation.\<close>

definition run1 :: RunResult where
  "run1 = \<lparr>run_id = ''run1'', run_config_id = Some ''config1'', startedAt = Some 1000,
     completedAt = Some 1100, run_rest = []\<rparr>"

definition run2 :: RunResult where
  "run2 = \<lparr>run_id = ''run2'', run_config_id = Some ''config2'', startedAt = Some 3000,
     completedAt = Some 3100, run_rest = []\<rparr>"

definition run3 :: RunResult where
  "run3 = \<lparr>run_id = ''run3'', run_config_id = Some ''config1'', startedAt = Some 2000,
     completedAt = None, run_rest = []\<rparr>"

definition threeRuns :: "RunRow list" where
  "threeRuns = createRun run3 (Some ''org'') (createRun run2 (Some ''org'')
     (createRun run1 (Some ''org'') []))"

text \<open>
  The run \<open>run1\<close> stored under \<open>config1\<close>, and then stored again, with the same id, as a
  run of \<open>config2\<close>.
\<close>

definition run1Moved :: RunResult where
  "run1Moved = run1\<lparr>run_config_id := Some ''config2''\<rparr>"

definition movedRun :: "RunRow list" where
  "movedRun = createRun run1Moved (Some ''org'') (createRun run1 (Some ''org'') [])"

section \<open>The integration catalog and \<open>getOAuthTokenUrl\<close> (packages/shared/integrations.ts)\<close>

text \<open>
  \<open>IntegrationConfig\<close> keeps the fields \<open>getOAuthTokenUrl\<close> can reach: \<open>apiUrl\<close> and the
  optional \<open>oauth\<close> block with its \<open>tokenUrl\<close>. The catalog \<open>integrations\<close> is the object
  literal of the source, as the list of its entries in declaration order, which is the order
  \<open>Object.entries\<close> enumerates.
\<close>

record OAuthConfig =
  tokenUrl :: string

record IntegrationConfig =
  apiUrl :: string
  oauth :: "OAuthConfig option"

definition integrations :: "(string \<times> IntegrationConfig) list" where
  "integrations = [
   (''stripe'', \<lparr>apiUrl = ''https://api.stripe.com'', oauth = None\<rparr>),
   (''shopify'', \<lparr>apiUrl = ''https://admin.shopify.com'', oauth = Some \<lparr>tokenUrl = ''https://{shop}.myshopify.com/admin/oauth/access_token''\<rparr>\<rparr>),
   (''hubspot'', \<lparr>apiUrl = ''https://api.hubapi.com/crm/v3'', oauth = Some \<lparr>tokenUrl = ''https://api.hubapi.com/oauth/v1/token''\<rparr>\<rparr>),
   (''attio'', \<lparr>apiUrl = ''https://api.attio.com/v2/'', oauth = None\<rparr>),
   (''twilio'', \<lparr>apiUrl = ''https://api.twilio.com'', oauth = None\<rparr>),
   (''sendgrid'', \<lparr>apiUrl = ''https://api.sendgrid.com'', oauth = None\<rparr>),
   (''github'', \<lparr>apiUrl = ''https://api.github.com'', oauth = Some \<lparr>tokenUrl = ''https://github.com/login/oauth/access_token''\<rparr>\<rparr>),
   (''gitlab'', \<lparr>apiUrl = ''https://api.gitlab.com'', oauth = Some \<lparr>tokenUrl = ''https://gitlab.com/oauth/token''\<rparr>\<rparr>),
   (''bitbucket'', \<lparr>apiUrl = ''https://api.bitbucket.org'', oauth = Some \<lparr>tokenUrl = ''https://bitbucket.org/site/oauth2/access_token''\<rparr>\<rparr>),
   (''slack'', \<lparr>apiUrl = ''https://api.slack.com'', oauth = Some \<lparr>tokenUrl = ''https://slack.com/api/oauth.v2.access''\<rparr>\<rparr>),
   (''airtable'', \<lparr>apiUrl = ''https://api.airtable.com'', oauth = Some \<lparr>tokenUrl = ''https://airtable.com/oauth2/v1/token''\<rparr>\<rparr>),
   (''gmail'', \<lparr>apiUrl = ''https://gmail.googleapis.com/gmail/v1'', oauth = Some \<lparr>tokenUrl = ''https://oauth2.googleapis.com/token''\<rparr>\<rparr>),
   (''googleDrive'', \<lparr>apiUrl = ''https://www.googleapis.com/drive/v3'', oauth = Some \<lparr>tokenUrl = ''https://oauth2.googleapis.com/token''\<rparr>\<rparr>),
   (''googleCalendar'', \<lparr>apiUrl = ''https://www.googleapis.com/calendar/v3'', oauth = Some \<lparr>tokenUrl = ''https://oauth2.googleapis.com/token''\<rparr>\<rparr>),
   (''googleSheets'', \<lparr>apiUrl = ''https://sheets.googleapis.com/v4'', oauth = Some \<lparr>tokenUrl = ''https://oauth2.googleapis.com/token''\<rparr>\<rparr>),
   (''googleAnalytics'', \<lparr>apiUrl = ''https://analytics.google.com'', oauth = Some \<lparr>tokenUrl = ''https://oauth2.googleapis.com/token''\<rparr>\<rparr>),
   (''youtube'', \<lparr>apiUrl = ''https://youtube.googleapis.com'', oauth = Some \<lparr>tokenUrl = ''https://oauth2.googleapis.com/token''\<rparr>\<rparr>),
   (''aws'', \<lparr>apiUrl = ''https://amazonaws.com'', oauth = None\<rparr>),
   (''googleCloud'', \<lparr>apiUrl = ''https://cloud.google.com'', oauth = Some \<lparr>tokenUrl = ''https://oauth2.googleapis.com/token''\<rparr>\<rparr>),
   (''firebase'', \<lparr>apiUrl = ''https://firestore.googleapis.com'', oauth = Some \<lparr>tokenUrl = ''https://oauth2.googleapis.com/token''\<rparr>\<rparr>),
   (''salesforce'', \<lparr>apiUrl = ''https://api.salesforce.com'', oauth = Some \<lparr>tokenUrl = ''https://login.salesforce.com/services/oauth2/token''\<rparr>\<rparr>),
   (''facebook'', \<lparr>apiUrl = ''https://graph.facebook.com'', oauth = Some \<lparr>tokenUrl = ''https://graph.facebook.com/v18.0/oauth/access_token''\<rparr>\<rparr>),
   (''instagram'', \<lparr>apiUrl = ''https://graph.facebook.com/v23.0/'', oauth = Some \<lparr>tokenUrl = ''https://graph.facebook.com/v23.0/oauth/access_token''\<rparr>\<rparr>),
   (''twitter'', \<lparr>apiUrl = ''https://api.twitter.com'', oauth = Some \<lparr>tokenUrl = ''https://api.twitter.com/2/oauth2/token''\<rparr>\<rparr>),
   (''linkedin'', \<lparr>apiUrl = ''https://api.linkedin.com'', oauth = Some \<lparr>tokenUrl = ''https://www.linkedin.com/oauth/v2/accessToken''\<rparr>\<rparr>),
   (''paypal'', \<lparr>apiUrl = ''https://api.paypal.com'', oauth = None\<rparr>),
   (''square'', \<lparr>apiUrl = ''https://connect.squareup.com'', oauth = Some \<lparr>tokenUrl = ''https://connect.squareup.com/oauth2/token''\<rparr>\<rparr>),
   (''adyen'', \<lparr>apiUrl = ''https://checkout-test.adyen.com'', oauth = None\<rparr>),
   (''razorpay'', \<lparr>apiUrl = ''https://api.razorpay.com'', oauth = None\<rparr>),
   (''plaid'', \<lparr>apiUrl = ''https://production.plaid.com'', oauth = None\<rparr>),
   (''zendesk'', \<lparr>apiUrl = ''https://api.zendesk.com'', oauth = Some \<lparr>tokenUrl = ''https://{subdomain}.zendesk.com/oauth/tokens''\<rparr>\<rparr>),
   (''freshdesk'', \<lparr>apiUrl = ''https://{domain}.freshdesk.com/api/v2'', oauth = None\<rparr>),
   (''freshworks'', \<lparr>apiUrl = ''https://{domain}.freshservice.com/api/v2'', oauth = None\<rparr>),
   (''servicenow'', \<lparr>apiUrl = ''https://{instance}.service-now.com/api'', oauth = None\<rparr>),
   (''helpscout'', \<lparr>apiUrl = ''https://api.helpscout.net'', oauth = None\<rparr>),
   (''dropbox'', \<lparr>apiUrl = ''https://api.dropboxapi.com'', oauth = Some \<lparr>tokenUrl = ''https://api.dropboxapi.com/oauth2/token''\<rparr>\<rparr>),
   (''mailchimp'', \<lparr>apiUrl = ''https://api.mailchimp.com'', oauth = Some \<lparr>tokenUrl = ''https://login.mailchimp.com/oauth2/token''\<rparr>\<rparr>),
   (''jira'', \<lparr>apiUrl = ''https://{your-domain}.atlassian.net/rest/api'', oauth = Some \<lparr>tokenUrl = ''https://auth.atlassian.com/oauth/token''\<rparr>\<rparr>),
   (''confluence'', \<lparr>apiUrl = ''https://{your-domain}.atlassian.net/wiki/rest/api'', oauth = Some \<lparr>tokenUrl = ''https://auth.atlassian.com/oauth/token''\<rparr>\<rparr>),
   (''quickbooks'', \<lparr>apiUrl = ''https://quickbooks.api.intuit.com'', oauth = Some \<lparr>tokenUrl = ''https://oauth.platform.intuit.com/oauth2/v1/tokens/bearer''\<rparr>\<rparr>),
   (''xero'', \<lparr>apiUrl = ''https://api.xero.com'', oauth = Some \<lparr>tokenUrl = ''https://identity.xero.com/connect/token''\<rparr>\<rparr>),
   (''docusign'', \<lparr>apiUrl = ''https://api.docusign.com'', oauth = Some \<lparr>tokenUrl = ''https://account.docusign.com/oauth/token''\<rparr>\<rparr>),
   (''intercom'', \<lparr>apiUrl = ''https://api.intercom.io'', oauth = Some \<lparr>tokenUrl = ''https://api.intercom.io/auth/eagle/token''\<rparr>\<rparr>),
   (''asana'', \<lparr>apiUrl = ''https://app.asana.com/api'', oauth = Some \<lparr>tokenUrl = ''https://app.asana.com/-/oauth_token''\<rparr>\<rparr>),
   (''trello'', \<lparr>apiUrl = ''https://api.trello.com'', oauth = None\<rparr>),
   (''notion'', \<lparr>apiUrl = ''https://api.notion.com'', oauth = Some \<lparr>tokenUrl = ''https://api.notion.com/v1/oauth/token''\<rparr>\<rparr>),
   (''digitalocean'', \<lparr>apiUrl = ''https://api.digitalocean.com'', oauth = Some \<lparr>tokenUrl = ''https://cloud.digitalocean.com/v1/oauth/token''\<rparr>\<rparr>),
   (''heroku'', \<lparr>apiUrl = ''https://api.heroku.com'', oauth = Some \<lparr>tokenUrl = ''https://id.heroku.com/oauth/token''\<rparr>\<rparr>),
   (''circleci'', \<lparr>apiUrl = ''https://circleci.com/api'', oauth = None\<rparr>),
   (''travisci'', \<lparr>apiUrl = ''https://api.travis-ci.com'', oauth = None\<rparr>),
   (''wordpress'', \<lparr>apiUrl = ''https://{your-site.com}/wp-json/wp/v2'', oauth = None\<rparr>),
   (''cloudflare'', \<lparr>apiUrl = ''https://api.cloudflare.com'', oauth = None\<rparr>),
   (''bigcommerce'', \<lparr>apiUrl = ''https://api.bigcommerce.com'', oauth = None\<rparr>),
   (''woocommerce'', \<lparr>apiUrl = ''https://{yourstore.com}/wp-json/wc/v3'', oauth = None\<rparr>),
   (''prestashop'', \<lparr>apiUrl = ''https://{yourstore.com}/api'', oauth = None\<rparr>),
   (''squarespace'', \<lparr>apiUrl = ''https://api.squarespace.com'', oauth = Some \<lparr>tokenUrl = ''https://login.squarespace.com/api/1/login/oauth/provider/tokens''\<rparr>\<rparr>),
   (''monday'', \<lparr>apiUrl = ''https://api.monday.com/v2'', oauth = Some \<lparr>tokenUrl = ''https://auth.monday.com/oauth2/token''\<rparr>\<rparr>),
   (''clickup'', \<lparr>apiUrl = ''https://api.clickup.com/api/v2'', oauth = Some \<lparr>tokenUrl = ''https://app.clickup.com/api/v2/oauth/token''\<rparr>\<rparr>),
   (''typeform'', \<lparr>apiUrl = ''https://api.typeform.com'', oauth = Some \<lparr>tokenUrl = ''https://api.typeform.com/oauth/token''\<rparr>\<rparr>),
   (''figma'', \<lparr>apiUrl = ''https://api.figma.com'', oauth = Some \<lparr>tokenUrl = ''https://www.figma.com/api/oauth/token''\<rparr>\<rparr>),
   (''contentful'', \<lparr>apiUrl = ''https://api.contentful.com'', oauth = None\<rparr>),
   (''sanity'', \<lparr>apiUrl = ''https://api.sanity.io'', oauth = None\<rparr>),
   (''prismic'', \<lparr>apiUrl = ''https://api.prismic.io'', oauth = None\<rparr>),
   (''netlify'', \<lparr>apiUrl = ''https://api.netlify.com'', oauth = Some \<lparr>tokenUrl = ''https://api.netlify.com/oauth/token''\<rparr>\<rparr>),
   (''vercel'', \<lparr>apiUrl = ''https://api.vercel.com'', oauth = None\<rparr>),
   (''amplitude'', \<lparr>apiUrl = ''https://api.amplitude.com'', oauth = None\<rparr>),
   (''segment'', \<lparr>apiUrl = ''https://api.segment.com'', oauth = None\<rparr>),
   (''mixpanel'', \<lparr>apiUrl = ''https://api.mixpanel.com'', oauth = None\<rparr>),
   (''algolia'', \<lparr>apiUrl = ''https://api.algolia.com'', oauth = None\<rparr>),
   (''snowflake'', \<lparr>apiUrl = ''https://account.snowflakecomputing.com'', oauth = None\<rparr>),
   (''databricks'', \<lparr>apiUrl = ''https://{your-workspace}.cloud.databricks.com/api'', oauth = None\<rparr>),
   (''looker'', \<lparr>apiUrl = ''https://{your-domain}.looker.com/api'', oauth = None\<rparr>),
   (''mongodb'', \<lparr>apiUrl = ''https://cloud.mongodb.com/api'', oauth = None\<rparr>),
   (''supabase'', \<lparr>apiUrl = ''https://api.supabase.co'', oauth = None\<rparr>),
   (''planetscale'', \<lparr>apiUrl = ''https://api.planetscale.com'', oauth = None\<rparr>),
   (''openai'', \<lparr>apiUrl = ''https://api.openai.com'', oauth = None\<rparr>),
   (''anthropic'', \<lparr>apiUrl = ''https://api.anthropic.com'', oauth = None\<rparr>),
   (''pinecone'', \<lparr>apiUrl = ''https://api.pinecone.io'', oauth = None\<rparr>),
   (''zoom'', \<lparr>apiUrl = ''https://api.zoom.us'', oauth = Some \<lparr>tokenUrl = ''https://zoom.us/oauth/token''\<rparr>\<rparr>),
   (''microsoft'', \<lparr>apiUrl = ''https://graph.microsoft.com'', oauth = Some \<lparr>tokenUrl = ''https://login.microsoftonline.com/common/oauth2/v2.0/token''\<rparr>\<rparr>),
   (''redis'', \<lparr>apiUrl = ''https://app.redislabs.com/api/v1'', oauth = None\<rparr>),
   (''elasticsearch'', \<lparr>apiUrl = ''https://api.elastic.co'', oauth = None\<rparr>),
   (''postmark'', \<lparr>apiUrl = ''https://api.postmarkapp.com'', oauth = None\<rparr>),
   (''sentry'', \<lparr>apiUrl = ''https://sentry.io/api'', oauth = None\<rparr>),
   (''pagerduty'', \<lparr>apiUrl = ''https://api.pagerduty.com'', oauth = None\<rparr>),
   (''datadog'', \<lparr>apiUrl = ''https://api.datadoghq.com'', oauth = None\<rparr>),
   (''newrelic'', \<lparr>apiUrl = ''https://api.newrelic.com'', oauth = None\<rparr>),
   (''auth0'', \<lparr>apiUrl = ''https://{your-domain}.auth0.com/api/v2'', oauth = Some \<lparr>tokenUrl = ''https://{your-domain}.auth0.com/oauth/token''\<rparr>\<rparr>),
   (''okta'', \<lparr>apiUrl = ''https://{your-domain}.okta.com/api/v1'', oauth = None\<rparr>),
   (''discord'', \<lparr>apiUrl = ''https://discord.com/api'', oauth = Some \<lparr>tokenUrl = ''https://discord.com/api/oauth2/token''\<rparr>\<rparr>),
   (''telegram'', \<lparr>apiUrl = ''https://api.telegram.org'', oauth = None\<rparr>),
   (''whatsapp'', \<lparr>apiUrl = ''https://graph.facebook.com'', oauth = None\<rparr>),
   (''linear'', \<lparr>apiUrl = ''https://api.linear.app/graphql'', oauth = None\<rparr>),
   (''resend'', \<lparr>apiUrl = ''https://api.resend.com'', oauth = None\<rparr>),
   (''googleAds'', \<lparr>apiUrl = ''https://googleads.googleapis.com/v20'', oauth = Some \<lparr>tokenUrl = ''https://oauth2.googleapis.com/token''\<rparr>\<rparr>),
   (''google'', \<lparr>apiUrl = ''https://googleapis.com'', oauth = Some \<lparr>tokenUrl = ''https://oauth2.googleapis.com/token''\<rparr>\<rparr>)]"

text \<open>
  The argument of \<open>getOAuthTokenUrl\<close>: \<open>credentials\<close> (here \<open>integration_credentials\<close>) is optional, and a map from names to
  string values.
\<close>

record Integration =
  integration_id :: string
  integration_urlHost :: string
  integration_credentials :: "(string \<times> string) list option"

text \<open>\<open>integration.credentials?.token_url\<close>, with \<open>None\<close> for \<open>undefined\<close>.\<close>

definition credentials_token_url :: "Integration \<Rightarrow> string option" where
  "credentials_token_url integration =
     (case integration_credentials integration of None \<Rightarrow> None | Some c \<Rightarrow> map_of c ''token_url'')"

text \<open>The predicate given to \<open>find\<close>: the entry's key is the id, or occurs in the host.\<close>

definition matchesKey :: "Integration \<Rightarrow> string \<times> IntegrationConfig \<Rightarrow> bool" where
  "matchesKey integration entry =
     (integration_id integration = fst entry \<or> includes_str (integration_urlHost integration) (fst entry))"

definition defaultTokenUrl :: "Integration \<Rightarrow> string" where
  "defaultTokenUrl integration = integration_urlHost integration @ ''/oauth/token''"

text \<open>
  \<open>getOAuthTokenUrl\<close> over a catalog \<open>cat\<close>. A string is truthy when it is not empty, so
  an empty \<open>token_url\<close> or \<open>tokenUrl\<close> falls through as a missing one does.
\<close>

definition getOAuthTokenUrlIn ::
  "(string \<times> IntegrationConfig) list \<Rightarrow> Integration \<Rightarrow> string" where
  "getOAuthTokenUrlIn cat integration =
     (case credentials_token_url integration of
        Some (c # cs) \<Rightarrow> c # cs
      | _ \<Rightarrow>
        (case find (matchesKey integration) cat of
           Some (key, config) \<Rightarrow>
             (case oauth config of
                Some oa \<Rightarrow> if tokenUrl oa \<noteq> [] then tokenUrl oa else defaultTokenUrl integration
              | None \<Rightarrow> defaultTokenUrl integration)
         | None \<Rightarrow> defaultTokenUrl integration))"

definition getOAuthTokenUrl :: "Integration \<Rightarrow> string" where
  "getOAuthTokenUrl = getOAuthTokenUrlIn integrations"

text \<open>The integrations of the token-URL tests of the repository.\<close>

definition ig_custom :: Integration where
  "ig_custom = \<lparr>integration_id = ''custom'', integration_urlHost = ''https://api.custom.com'',
     integration_credentials = Some [(''token_url'', ''https://custom.com/oauth/token'')]\<rparr>"

definition ig_host :: Integration where
  "ig_host = \<lparr>integration_id = ''my-github'', integration_urlHost = ''https://api.github.com'',
     integration_credentials = Some []\<rparr>"

definition ig_unknown :: Integration where
  "ig_unknown = \<lparr>integration_id = ''unknown'', integration_urlHost = ''https://api.unknown.com'',
     integration_credentials = Some []\<rparr>"

text \<open>
  Three integrations of the catalog itself, each with its own id and the \<open>apiUrl\<close> of
  its catalog entry as host.
\<close>

definition ig_squarespace :: Integration where
  "ig_squarespace = \<lparr>integration_id = ''squarespace'',
     integration_urlHost = ''https://api.squarespace.com'', integration_credentials = Some []\<rparr>"

definition ig_instagram :: Integration where
  "ig_instagram = \<lparr>integration_id = ''instagram'',
     integration_urlHost = ''https://graph.facebook.com/v23.0/'', integration_credentials = Some []\<rparr>"

definition ig_whatsapp :: Integration where
  "ig_whatsapp = \<lparr>integration_id = ''whatsapp'',
     integration_urlHost = ''https://graph.facebook.com'', integration_credentials = Some []\<rparr>"

section \<open>Facts about the string functions\<close>

lemma startsWith_iff: "startsWith s p \<longleftrightarrow> (\<exists>r. s = p @ r)"
  unfolding startsWith_def
  by (metis append_eq_conv_conj append_take_drop_id)

lemma includes_iff: "includes_str s k \<longleftrightarrow> (\<exists>ps ss. s = ps @ k @ ss)"
proof (induction s)
  case Nil
  then show ?case by simp
next
  case (Cons c s)
  show ?case
  proof
    assume "includes_str (c # s) k"
    then consider "startsWith (c # s) k" | "includes_str s k" by auto
    then show "\<exists>ps ss. c # s = ps @ k @ ss"
    proof cases
      case 1
      then obtain r where "c # s = k @ r" using startsWith_iff by blast
      then have "c # s = [] @ k @ r" by simp
      then show ?thesis by blast
    next
      case 2
      then obtain ps ss where "s = ps @ k @ ss" using Cons.IH by blast
      then have "c # s = (c # ps) @ k @ ss" by simp
      then show ?thesis by blast
    qed
  next
    assume "\<exists>ps ss. c # s = ps @ k @ ss"
    then obtain ps ss where e: "c # s = ps @ k @ ss" by blast
    show "includes_str (c # s) k"
    proof (cases ps)
      case Nil
      with e have "startsWith (c # s) k" using startsWith_iff by auto
      then show ?thesis by simp
    next
      case (Cons p ps')
      with e have "s = ps' @ k @ ss" by simp
      then have "includes_str s k" using Cons.IH by blast
      then show ?thesis by simp
    qed
  qed
qed

lemma find_first:
  "find P (pre @ x # post) = Some x" if "P x" "\<forall>y \<in> set pre. \<not> P y"
  using that by (induction pre) auto

section \<open>Properties of the header processing\<close>

lemma toBase64_examples:
  "toBase64 ''user:pass'' = ''dXNlcjpwYXNz''"
  "toBase64 ''a'' = ''YQ==''"
  "toBase64 ''ab'' = ''YWI=''"
  by code_simp+

text \<open>
  A \<open>Basic\<close> value whose payload is not written in the Base64 alphabet is encoded; one
  that is, is left alone.
\<close>

lemma convertBasicAuthToBase64_encodes:
  "v \<noteq> [] \<Longrightarrow> \<not> seemsEncoded (trim (substring (length ''Basic '') v)) \<Longrightarrow>
   convertBasicAuthToBase64 v = ''Basic '' @ toBase64 (trim (substring (length ''Basic '') v))"
  by (simp add: convertBasicAuthToBase64_def Let_def)

lemma convertBasicAuthToBase64_keeps:
  "seemsEncoded (trim (substring (length ''Basic '') v)) \<Longrightarrow> convertBasicAuthToBase64 v = v"
  by (simp add: convertBasicAuthToBase64_def Let_def)

lemma processHeaderValue_basic_examples:
  "processHeaderValue ''AUTHORIZATION'' ''Basic user:pass'' = ''Basic dXNlcjpwYXNz''"
  "processHeaderValue ''Authorization'' ''Basic dXNlcjpwYXNz'' = ''Basic dXNlcjpwYXNz''"
  "processHeaderValue ''X-Other'' ''Basic user:pass'' = ''Basic user:pass''"
  by code_simp+

text \<open>
  Claim C7, at the inputs where the code departs from it. A doubled scheme word is not
  reduced to one: the replacement text of the pattern keeps both words and drops the white
  space after the second, so \<open>Bearer Bearer tok\<close> becomes \<open>Bearer Bearertok\<close>, and
  \<open>Basic Basic dXNlcjpwYXNz\<close> becomes \<open>Basic BasicdXNlcjpwYXNz\<close>, which then counts as
  encoded and is sent as it is.
\<close>

theorem processHeaderValue_double_scheme:
  "processHeaderValue ''Authorization'' ''Bearer Bearer tok'' = ''Bearer Bearertok'' \<and>
   processHeaderValue ''Authorization'' ''Basic Basic dXNlcjpwYXNz'' = ''Basic BasicdXNlcjpwYXNz''"
  by code_simp

section \<open>Properties of \<open>callEndpoint\<close>\<close>

subsection \<open>The shape of the loop\<close>

text \<open>The five ways one pass through the loop can go.\<close>

lemma callEndpointLoop_cases [case_names finished postgres axiosError handleError continue]:
  obtains
    "\<not> (hasMore s \<and> n < maxRequests env (endpoint args))"
    "callEndpointLoop env args n s issued = (finish (endpoint args) s, issued)"
  | "hasMore s" "n < maxRequests env (endpoint args)"
    "isPostgresHost (processedUrlHost env args s)"
    "callEndpointLoop env args n s issued =
       (case callPostgres env issued (postgresEndpoint env args s) (payload args)
               (credentials args) (options args) of
          Inl e \<Rightarrow> (Inl e, issued)
        | Inr d \<Rightarrow> (Inr \<lparr>res_data = d, statusCode = 200, res_headers = []\<rparr>, issued))"
  | e where "hasMore s" "n < maxRequests env (endpoint args)"
    "\<not> isPostgresHost (processedUrlHost env args s)"
    "callAxios env issued (axiosConfig env args s) (options args) = Inl e"
    "callEndpointLoop env args n s issued = (Inl e, issued @ [axiosConfig env args s])"
  | r e where "hasMore s" "n < maxRequests env (endpoint args)"
    "\<not> isPostgresHost (processedUrlHost env args s)"
    "callAxios env issued (axiosConfig env args s) (options args) = Inr r"
    "handleResponse env args n (axiosConfig env args s) r s = Inl e"
    "callEndpointLoop env args n s issued = (Inl e, issued @ [axiosConfig env args s])"
  | r s' where "hasMore s" "n < maxRequests env (endpoint args)"
    "\<not> isPostgresHost (processedUrlHost env args s)"
    "callAxios env issued (axiosConfig env args s) (options args) = Inr r"
    "handleResponse env args n (axiosConfig env args s) r s = Inr s'"
    "callEndpointLoop env args n s issued =
       callEndpointLoop env args (Suc n) s' (issued @ [axiosConfig env args s])"
proof -
  note eq = callEndpointLoop.simps [of env args n s issued]
  show ?thesis
  proof (cases "hasMore s \<and> n < maxRequests env (endpoint args)")
    case False
    have "callEndpointLoop env args n s issued = (finish (endpoint args) s, issued)"
      by (subst eq) (simp only: False if_False)
    with False show ?thesis by (rule that(1))
  next
    case guard: True
    show ?thesis
    proof (cases "isPostgresHost (processedUrlHost env args s)")
      case True
      have "callEndpointLoop env args n s issued =
         (case callPostgres env issued (postgresEndpoint env args s) (payload args)
                 (credentials args) (options args) of
            Inl e \<Rightarrow> (Inl e, issued)
          | Inr d \<Rightarrow> (Inr \<lparr>res_data = d, statusCode = 200, res_headers = []\<rparr>, issued))"
        by (subst eq) (simp only: guard True simp_thms if_True)
      with guard True show ?thesis by (intro that(2)) simp_all
    next
      case nopg: False
      show ?thesis
      proof (cases "callAxios env issued (axiosConfig env args s) (options args)")
        case (Inl e)
        have "callEndpointLoop env args n s issued =
            (Inl e, issued @ [axiosConfig env args s])"
          by (subst eq) (simp only: guard nopg Inl simp_thms if_True if_False sum.case)
        with guard nopg Inl show ?thesis by (intro that(3) [of e]) simp_all
      next
        case (Inr r)
        show ?thesis
        proof (cases "handleResponse env args n (axiosConfig env args s) r s")
          case (Inl e)
          have "callEndpointLoop env args n s issued =
              (Inl e, issued @ [axiosConfig env args s])"
            by (subst eq) (simp only: guard nopg Inr Inl simp_thms if_True if_False sum.case)
          with guard nopg Inr Inl show ?thesis by (intro that(4) [of r e]) simp_all
        next
          case r2: (Inr s')
          have "callEndpointLoop env args n s issued =
              callEndpointLoop env args (Suc n) s' (issued @ [axiosConfig env args s])"
            by (subst eq) (simp only: guard nopg Inr r2 simp_thms if_True if_False sum.case)
          with guard nopg Inr r2 show ?thesis by (intro that(5) [of r s']) simp_all
        qed
      qed
    qed
  qed
qed

text \<open>
  The loop only adds requests, and from counter \<open>n\<close> on it adds at most
  \<open>maxRequests - n\<close> of them.
\<close>

lemma callEndpointLoop_requests:
  "\<exists>new. snd (callEndpointLoop env args n s issued) = issued @ new \<and>
         length new \<le> maxRequests env (endpoint args) - n"
proof (induction env args n s issued rule: callEndpointLoop.induct)
  case (1 env args n s issued)
  show ?case
  proof (cases rule: callEndpointLoop_cases [of s n env args issued])
    case finished
    then show ?thesis by simp
  next
    case postgres
    then show ?thesis by (simp split: sum.splits)
  next
    case (axiosError e)
    then show ?thesis by simp
  next
    case (handleError r e)
    then show ?thesis by simp
  next
    case (continue r s')
    then obtain new where
      "snd (callEndpointLoop env args (Suc n) s' (issued @ [axiosConfig env args s])) =
         (issued @ [axiosConfig env args s]) @ new"
      "length new \<le> maxRequests env (endpoint args) - Suc n"
      using "1.IH" by blast
    then have "snd (callEndpointLoop env args n s issued) = issued @ (axiosConfig env args s # new)"
      "length (axiosConfig env args s # new) \<le> maxRequests env (endpoint args) - n"
      using continue by simp_all
    then show ?thesis by blast
  qed
qed

text \<open>
  Claim C1. A run of \<open>callEndpoint\<close> adds its requests to those issued before, and it adds
  at most 500 when the endpoint has no stop condition and at most
  \<open>MAX_PAGINATION_REQUESTS\<close> when it has one.
\<close>

theorem callEndpoint_request_bound:
  "\<exists>new. snd (callEndpoint env args issued) = issued @ new \<and>
     (\<not> hasStopCondition (endpoint args) \<longrightarrow> length new \<le> 500) \<and>
     (hasStopCondition (endpoint args) \<longrightarrow> length new \<le> MAX_PAGINATION_REQUESTS env)"
proof -
  obtain new where n: "snd (callEndpoint env args issued) = issued @ new"
    "length new \<le> maxRequests env (endpoint args) - 0"
    unfolding callEndpoint_def using callEndpointLoop_requests by blast
  have "\<not> hasStopCondition (endpoint args) \<longrightarrow> length new \<le> 500"
    using n(2) by (auto simp: maxRequests_def split: if_splits)
  moreover have "hasStopCondition (endpoint args) \<longrightarrow> length new \<le> MAX_PAGINATION_REQUESTS env"
    using n(2) by (auto simp: maxRequests_def split: if_splits)
  ultimately show ?thesis using n(1) by blast
qed

theorem callEndpoint_request_bound_witness:
  "\<not> hasStopCondition (endpoint pageBasedCall) \<and>
   (\<exists>new. snd (callEndpoint (mockImports twoPages) pageBasedCall []) = [] @ new \<and>
      length new \<le> 500) \<and>
   hasStopCondition (endpoint stopConditionCall) \<and>
   (\<exists>new. snd (callEndpoint (mockImports samePages) stopConditionCall []) = [] @ new \<and>
      length new \<le> MAX_PAGINATION_REQUESTS (mockImports samePages))"
proof -
  have a: "\<not> hasStopCondition (endpoint pageBasedCall)"
    by code_simp
  have b: "hasStopCondition (endpoint stopConditionCall)"
    by code_simp
  show ?thesis
    using a b callEndpoint_request_bound [of "mockImports twoPages" pageBasedCall "[]"]
      callEndpoint_request_bound [of "mockImports samePages" stopConditionCall "[]"]
    by blast
qed

text \<open>The two runs of the witness issue two requests each.\<close>

lemma request_counts:
  "length (snd (callEndpoint (mockImports twoPages) pageBasedCall [])) = 2"
  "length (snd (callEndpoint (mockImports samePages) stopConditionCall [])) = 2"
  by code_simp+

text \<open>
  Claim C10. When the substituted \<open>urlHost\<close> starts with \<open>postgres://\<close> or
  \<open>postgresql://\<close>, and the request limit lets the loop start (it is 500 without a stop
  condition), \<open>callEndpoint\<close> ends in its first iteration: it issues no HTTP request, and
  its outcome is that of \<open>callPostgres\<close>, the data returned with status code 200 and no
  headers, untouched by the response checks and the data path.
\<close>

theorem callEndpoint_postgres:
  assumes "isPostgresHost (processedUrlHost env args initialState)"
    and "hasStopCondition (endpoint args) \<longrightarrow> 0 < MAX_PAGINATION_REQUESTS env"
  shows "callEndpoint env args issued =
     (case callPostgres env issued (postgresEndpoint env args initialState) (payload args)
             (credentials args) (options args) of
        Inl e \<Rightarrow> (Inl e, issued)
      | Inr d \<Rightarrow> (Inr \<lparr>res_data = d, statusCode = 200, res_headers = []\<rparr>, issued))"
proof -
  have "0 < maxRequests env (endpoint args)"
    using assms(2) by (simp add: maxRequests_def)
  moreover have "hasMore initialState"
    by (simp add: initialState_def)
  ultimately show ?thesis
    using assms(1)
    by (simp add: callEndpoint_def callEndpointLoop.simps [of env args 0 initialState issued])
qed

theorem callEndpoint_postgres_witness:
  "isPostgresHost (processedUrlHost (mockImports []) postgresCall initialState) \<and>
   callEndpoint (mockImports []) postgresCall [] =
     (Inr \<lparr>res_data = JArr [JObj [(''one'', JNum 1)]], statusCode = 200, res_headers = []\<rparr>, [])"
proof -
  have a: "isPostgresHost (processedUrlHost (mockImports []) postgresCall initialState)"
    by code_simp
  have b: "hasStopCondition (endpoint postgresCall) \<longrightarrow>
      0 < MAX_PAGINATION_REQUESTS (mockImports [])"
    by code_simp
  have c: "callPostgres (mockImports []) [] (postgresEndpoint (mockImports []) postgresCall initialState)
      (payload postgresCall) (credentials postgresCall) (options postgresCall) =
      Inr (JArr [JObj [(''one'', JNum 1)]])"
    by (simp add: mockImports_def)
  show ?thesis
    using a callEndpoint_postgres [OF a b, of "[]"] c by simp
qed

subsection \<open>Pagination without a stop condition: a repeated page ends the run\<close>










lemma responseAt_next:
  "responseAt env args (xs @ c # ys) (length xs) = callAxios env xs c (options args)"
  by (simp add: responseAt_def)

lemma pageAt_next:
  "callAxios env xs c (options args) = Inr r \<Longrightarrow>
   pageAt env args (xs @ c # ys) (length xs) = extractData env (endpoint args) (data r)"
  by (simp add: pageAt_def responseAt_next)






subsection \<open>Pagination with a stop condition: identical first pages\<close>

lemma advance_first: "firstResponseHash (advance ep r s) = firstResponseHash s"
  and advance_valid: "hasValidData (advance ep r s) = hasValidData s"
  by (simp_all add: advance_def Let_def split: option.splits PaginationType.splits)

text \<open>The first iteration records the hash of its page and whether the page has data.\<close>

lemma handleResponse_first:
  assumes "hasStopCondition (endpoint args)"
    and "handleResponse env args 0 config r s = Inr s'"
  shows "\<exists>d. extractData env (endpoint args) (data r) = Inr d \<and>
     firstResponseHash s' = JSON_stringify d \<and> hasValidData s' = hasData d"
proof -
  obtain d s1 where d: "extractData env (endpoint args) (data r) = Inr d"
    and w: "withStopCondition env args 0 config r d s = Inr s1"
    and s': "s' = advance (endpoint args) r (s1\<lparr>lastResponse := Some r\<rparr>)"
    using assms by (auto simp: handleResponse_def split: if_splits sum.splits)
  have "firstResponseHash s1 = JSON_stringify d \<and> hasValidData s1 = hasData d"
    using w by (auto simp: withStopCondition_def Let_def split: if_splits sum.splits
        option.splits list.splits)
  then show ?thesis
    using d s' by (simp add: advance_first advance_valid)
qed

text \<open>The second iteration rejects a page with data and with the hash of the first.\<close>

lemma handleResponse_second_identical:
  assumes "hasStopCondition (endpoint args)"
    and "\<not> responseFailed r" and "\<not> isHtmlResponse r"
    and "extractData env (endpoint args) (data r) = Inr d"
    and "JSON_stringify d = firstResponseHash s" and "hasValidData s" and "hasData d"
  shows "handleResponse env args (Suc 0) config r s = Inl (paginationConfigError env args config)"
  using assms by (simp add: handleResponse_def withStopCondition_def Let_def)

lemma paginationConfigError_message:
  "\<exists>msg. paginationConfigError env args config = Error msg \<and>
         includes_str msg ''pagination parameters''"
proof -
  obtain pre post where
    "paginationConfigError env args config =
       Error (pre @ ''This indicates the pagination parameters are not being applied correctly. '' @ post)"
    unfolding paginationConfigError_def Let_def by (metis append.assoc)
  moreover have "''This indicates the pagination parameters are not being applied correctly. '' =
      ''This indicates the '' @ ''pagination parameters'' @ '' are not being applied correctly. ''"
    by simp
  ultimately have "paginationConfigError env args config =
      Error ((pre @ ''This indicates the '') @ ''pagination parameters'' @
             ('' are not being applied correctly. '' @ post))"
    by (simp only: append.assoc)
  then show ?thesis
    using includes_iff by blast
qed

text \<open>
  Claim C5. With a stop condition: when a run issues a second request, the response to it
  passes the status and HTML checks, and the data extracted from the first two responses
  have the same serialization and are both not empty, \<open>callEndpoint\<close> throws an error
  whose message contains \<open>pagination parameters\<close>, and the second request is the last.
\<close>

theorem identical_first_pages_rejected:
  assumes "hasStopCondition (endpoint args)"
    and "snd (callEndpoint env args []) = log" and "1 < length log"
    and "responseAt env args log 1 = Inr r1"
    and "\<not> responseFailed r1" and "\<not> isHtmlResponse r1"
    and "pageAt env args log 0 = Inr d0" and "pageAt env args log 1 = Inr d1"
    and "JSON_stringify d0 = JSON_stringify d1" and "hasData d0" and "hasData d1"
  shows "\<exists>msg. fst (callEndpoint env args []) = Inl (Error msg) \<and>
     includes_str msg ''pagination parameters'' \<and> length log = 2"
proof -
  let ?c0 = "axiosConfig env args initialState"
  have run0: "callEndpoint env args [] = callEndpointLoop env args 0 initialState []"
    by (simp add: callEndpoint_def)
  have log0: "snd (callEndpointLoop env args 0 initialState []) = log"
    using assms(2) run0 by simp
  show ?thesis
  proof (cases rule: callEndpointLoop_cases [of initialState 0 env args "[]"])
    case finished
    then have "log = []" using log0 by simp
    then show ?thesis using assms(3) by simp
  next
    case postgres
    then have "log = []" using log0 by (simp split: sum.splits)
    then show ?thesis using assms(3) by simp
  next
    case (axiosError e)
    then have "log = [?c0]" using log0 by simp
    then show ?thesis using assms(3) by simp
  next
    case (handleError r e)
    then have "log = [?c0]" using log0 by simp
    then show ?thesis using assms(3) by simp
  next
    case first: (continue r0 s1)
    let ?c1 = "axiosConfig env args s1"
    have log1: "snd (callEndpointLoop env args (Suc 0) s1 [?c0]) = log"
      using first(6) log0 by simp
    obtain rest where rest: "log = [?c0] @ rest"
      using callEndpointLoop_requests [of env args "Suc 0" s1 "[?c0]"] log1 by auto
    then have "pageAt env args log 0 = extractData env (endpoint args) (data r0)"
      using pageAt_next [OF first(4), where ys = rest] by simp
    then have e0: "extractData env (endpoint args) (data r0) = Inr d0"
      using assms(7) by simp
    obtain d where "extractData env (endpoint args) (data r0) = Inr d"
      "firstResponseHash s1 = JSON_stringify d" "hasValidData s1 = hasData d"
      using handleResponse_first [OF assms(1) first(5)] by blast
    then have s1: "firstResponseHash s1 = JSON_stringify d0" "hasValidData s1"
      using e0 assms(10) by simp_all
    show ?thesis
    proof (cases rule: callEndpointLoop_cases [of s1 "Suc 0" env args "[?c0]"])
      case finished
      then have "log = [?c0]" using log1 by simp
      then show ?thesis using assms(3) by simp
    next
      case postgres
      then have "log = [?c0]" using log1 by (simp split: sum.splits)
      then show ?thesis using assms(3) by simp
    next
      case (axiosError e)
      then have "log = [?c0] @ ?c1 # []" using log1 by simp
      then have "responseAt env args log 1 = Inl e"
        using responseAt_next [of env args "[?c0]" ?c1 "[]"] axiosError(4) by simp
      then show ?thesis using assms(4) by simp
    next
      case second: (handleError r e)
      have l: "log = [?c0] @ ?c1 # []" using second(6) log1 by simp
      then have "responseAt env args log 1 = Inr r"
        using responseAt_next [of env args "[?c0]" ?c1 "[]"] second(4) by simp
      then have r: "r = r1" using assms(4) by simp
      have "pageAt env args log 1 = extractData env (endpoint args) (data r1)"
        using assms(4) by (simp add: pageAt_def)
      then have e1: "extractData env (endpoint args) (data r1) = Inr d1"
        using assms(8) by simp
      have "handleResponse env args (Suc 0) ?c1 r1 s1 =
          Inl (paginationConfigError env args ?c1)"
        using handleResponse_second_identical [OF assms(1,5,6) e1 _ s1(2) assms(11)]
          s1(1) assms(9) by simp
      then have "e = paginationConfigError env args ?c1"
        using second(5) r by simp
      then have "fst (callEndpoint env args []) = Inl (paginationConfigError env args ?c1)"
        using run0 first(6) second(6) by simp
      moreover have "length log = 2" using l by simp
      ultimately show ?thesis
        using paginationConfigError_message [of env args ?c1] by auto
    next
      case second: (continue r s2)
      obtain rest2 where "log = ([?c0] @ [?c1]) @ rest2"
        using callEndpointLoop_requests [of env args "Suc (Suc 0)" s2 "[?c0] @ [?c1]"]
          second(6) log1 by auto
      then have l: "log = [?c0] @ ?c1 # rest2" by simp
      then have "responseAt env args log 1 = Inr r"
        using responseAt_next [of env args "[?c0]" ?c1 rest2] second(4) by simp
      then have r: "r = r1" using assms(4) by simp
      have "pageAt env args log 1 = extractData env (endpoint args) (data r1)"
        using assms(4) by (simp add: pageAt_def)
      then have e1: "extractData env (endpoint args) (data r1) = Inr d1"
        using assms(8) by simp
      have "handleResponse env args (Suc 0) ?c1 r1 s1 =
          Inl (paginationConfigError env args ?c1)"
        using handleResponse_second_identical [OF assms(1,5,6) e1 _ s1(2) assms(11)]
          s1(1) assms(9) by simp
      then show ?thesis using second(5) r by simp
    qed
  qed
qed

theorem identical_first_pages_rejected_witness:
  "hasStopCondition (endpoint stopConditionCall) \<and>
   1 < length (snd (callEndpoint (mockImports samePages) stopConditionCall [])) \<and>
   (\<exists>msg. fst (callEndpoint (mockImports samePages) stopConditionCall []) = Inl (Error msg) \<and>
      includes_str msg ''pagination parameters'' \<and>
      length (snd (callEndpoint (mockImports samePages) stopConditionCall [])) = 2)"
proof -
  let ?env = "mockImports samePages"
  let ?log = "snd (callEndpoint ?env stopConditionCall [])"
  let ?r = "okResponse (JArr [item 1, item 2])"
  have a1: "hasStopCondition (endpoint stopConditionCall)"
    by code_simp
  have a3: "1 < length ?log"
    by code_simp
  have a4: "responseAt ?env stopConditionCall ?log 1 = Inr ?r"
    by code_simp
  have a5: "\<not> responseFailed ?r" and a6: "\<not> isHtmlResponse ?r"
    by code_simp+
  have a7: "pageAt ?env stopConditionCall ?log 0 = Inr (JArr [item 1, item 2])"
    by code_simp
  have a8: "pageAt ?env stopConditionCall ?log 1 = Inr (JArr [item 1, item 2])"
    by code_simp
  have a10: "hasData (JArr [item 1, item 2])"
    by code_simp
  show ?thesis
    using a1 a3 identical_first_pages_rejected [OF a1 refl a3 a4 a5 a6 a7 a8 refl a10 a10]
    by blast
qed

section \<open>Properties of \<open>executeApiCall\<close>\<close>

subsection \<open>The blocks of one attempt\<close>

lemma checkResponse_None: "checkResponse llm args n d s = (None, s1) \<Longrightarrow> success s1"
  by (auto simp: checkResponse_def split: if_splits sum.splits)

lemma checkResponse_fst_None:
  "fst (checkResponse llm args n d s) = None \<Longrightarrow> success (snd (checkResponse llm args n d s))"
  using checkResponse_None [of llm args n d s] by (cases "checkResponse llm args n d s") simp

lemma tryBlock_None: "tryBlock env llm args n s issued = (None, s1, issued1) \<Longrightarrow> success s1"
  unfolding tryBlock_def Let_def
  by (auto split: if_splits sum.splits prod.splits dest: checkResponse_fst_None)

lemma catchBlock_lastError:
  "lastError (catchBlock env args n e s) =
     Some (slice0 1000 (maskCredentials env (rawErrorString e) (Some (credentials args))))"
  by (simp add: catchBlock_def Let_def)

text \<open>
  What the \<open>catch\<close> block adds to the conversation: nothing after the first attempt, and
  after a later one the user message with the first 2000 characters of the error text as
  it was thrown. \<open>maskCredentials\<close> has no part in it.
\<close>

lemma catchBlock_messages:
  "messages (catchBlock env args n e s) =
     (if 0 < n then messages s @ [fixMessage (rawErrorString e)] else messages s)"
  by (simp add: catchBlock_def Let_def)

lemma fixMessage_content:
  "role (fixMessage raw) = ''user''"
  "content (fixMessage raw) =
     ''There was an error with the configuration, please fix: '' @ take 2000 raw"
  by (simp_all add: fixMessage_def slice0_def)

lemma outcome_afterLoop_success:
  "success s \<Longrightarrow> \<exists>res. outcome (afterLoop n s h issued) = Inr res"
  by (simp add: afterLoop_def)

lemma outcome_afterLoop_failure:
  "outcome (afterLoop n s h issued) = Inl e \<Longrightarrow> e = failedAfter n s"
  by (simp add: afterLoop_def split: if_splits)

lemma attempts_afterLoop: "attempts (afterLoop n s h issued) = h"
  by (simp add: afterLoop_def)

text \<open>The four ways one pass through the \<open>do ... while\<close> loop can go.\<close>

lemma executeLoop_cases [case_names succeeded aborted exhausted again]:
  obtains s1 issued1 where
    "tryBlock env llm args n s issued = (None, s1, issued1)"
    "executeLoop env llm args n s h issued = afterLoop n s1 (h @ [None]) issued1"
  | e s1 issued1 where
    "tryBlock env llm args n s issued = (Some e, s1, issued1)" "isAbortError e"
    "executeLoop env llm args n s h issued =
       afterLoop n (catchBlock env args n e s1) (h @ [Some e]) issued1"
  | e s1 issued1 where
    "tryBlock env llm args n s issued = (Some e, s1, issued1)" "\<not> isAbortError e"
    "\<not> int (Suc n) < retryBudget env args"
    "executeLoop env llm args n s h issued =
       afterLoop (Suc n) (catchBlock env args n e s1) (h @ [Some e]) issued1"
  | e s1 issued1 where
    "tryBlock env llm args n s issued = (Some e, s1, issued1)" "\<not> isAbortError e"
    "int (Suc n) < retryBudget env args"
    "executeLoop env llm args n s h issued =
       executeLoop env llm args (Suc n) (catchBlock env args n e s1) (h @ [Some e]) issued1"
proof -
  note eq = executeLoop.simps [of env llm args n s h issued]
  obtain x s1 issued1 where t: "tryBlock env llm args n s issued = (x, s1, issued1)"
    by (metis prod_cases3)
  show ?thesis
  proof (cases x)
    case None
    have "executeLoop env llm args n s h issued = afterLoop n s1 (h @ [None]) issued1"
      unfolding eq using t None by simp
    then show ?thesis using that(1) t None by blast
  next
    case (Some e)
    show ?thesis
    proof (cases "isAbortError e")
      case True
      have "executeLoop env llm args n s h issued =
          afterLoop n (catchBlock env args n e s1) (h @ [Some e]) issued1"
        unfolding eq using t Some True by (simp add: Let_def)
      then show ?thesis using that(2) t Some True by blast
    next
      case False
      show ?thesis
      proof (cases "int (Suc n) < retryBudget env args")
        case True
        have "executeLoop env llm args n s h issued =
            executeLoop env llm args (Suc n) (catchBlock env args n e s1) (h @ [Some e]) issued1"
          unfolding eq using t Some False True by (simp add: Let_def)
        then show ?thesis using that(4) t Some False True by blast
      next
        case nomore: False
        have "executeLoop env llm args n s h issued =
            afterLoop (Suc n) (catchBlock env args n e s1) (h @ [Some e]) issued1"
          unfolding eq using t Some False nomore by (simp add: Let_def)
        then show ?thesis using that(3) t Some False nomore by blast
      qed
    qed
  qed
qed

text \<open>
  \<open>carriesLastError env args e err\<close>: the error \<open>e\<close> that \<open>executeApiCall\<close> throws is an
  \<open>ApiCallError\<close> whose message ends with the first 1000 characters of the masked text
  of the caught error \<open>err\<close>.
\<close>

lemma failedAfter_catchBlock:
  "\<exists>m st. failedAfter k (catchBlock env args n err s) =
     ApiCallError (''API call failed after '' @ showInt (int m) @ '' retries. Last error: '' @
        slice0 1000 (maskCredentials env (rawErrorString err) (Some (credentials args)))) st"
  unfolding failedAfter_def by (simp only: catchBlock_lastError option.case) blast

lemma executeLoop_attempts:
  "\<exists>new. attempts (executeLoop env llm args n s h issued) = h @ new \<and> new \<noteq> [] \<and>
     int (length new) \<le> max 1 (retryBudget env args - int n) \<and>
     (\<forall>e. outcome (executeLoop env llm args n s h issued) = Inl e \<longrightarrow>
        (\<exists>err m st. last new = Some err \<and>
           e = ApiCallError (''API call failed after '' @ showInt (int m) @
                 '' retries. Last error: '' @
                 slice0 1000 (maskCredentials env (rawErrorString err) (Some (credentials args))))
               st))"
proof (induction "nat (retryBudget env args - int n)" arbitrary: n s h issued rule: less_induct)
  case less
  show ?case
  proof (cases rule: executeLoop_cases [of env llm args n s issued h])
    case (succeeded s1 issued1)
    have "success s1" using tryBlock_None [OF succeeded(1)] .
    then have "\<forall>e. outcome (executeLoop env llm args n s h issued) \<noteq> Inl e"
      using outcome_afterLoop_success [of s1 n "h @ [None]" issued1] succeeded(2) by auto
    moreover have "attempts (executeLoop env llm args n s h issued) = h @ [None]"
      using succeeded(2) by (simp add: attempts_afterLoop)
    ultimately show ?thesis
      by (intro exI [of _ "[None]"]) simp
  next
    case (aborted e s1 issued1)
    have a: "attempts (executeLoop env llm args n s h issued) = h @ [Some e]"
      using aborted(3) by (simp add: attempts_afterLoop)
    have o: "\<forall>x. outcome (executeLoop env llm args n s h issued) = Inl x \<longrightarrow>
        x = failedAfter n (catchBlock env args n e s1)"
      using aborted(3) outcome_afterLoop_failure by simp
    show ?thesis
      using a o failedAfter_catchBlock [of n env args n e s1]
      by (intro exI [of _ "[Some e]"]) auto
  next
    case (exhausted e s1 issued1)
    have a: "attempts (executeLoop env llm args n s h issued) = h @ [Some e]"
      using exhausted(4) by (simp add: attempts_afterLoop)
    have o: "\<forall>x. outcome (executeLoop env llm args n s h issued) = Inl x \<longrightarrow>
        x = failedAfter (Suc n) (catchBlock env args n e s1)"
      using exhausted(4) outcome_afterLoop_failure by simp
    show ?thesis
      using a o failedAfter_catchBlock [of "Suc n" env args n e s1]
      by (intro exI [of _ "[Some e]"]) auto
  next
    case (again e s1 issued1)
    let ?s2 = "catchBlock env args n e s1"
    have "nat (retryBudget env args - int (Suc n)) < nat (retryBudget env args - int n)"
      using again(3) by simp
    then obtain new where new:
      "attempts (executeLoop env llm args (Suc n) ?s2 (h @ [Some e]) issued1) =
         (h @ [Some e]) @ new"
      "new \<noteq> []"
      "int (length new) \<le> max 1 (retryBudget env args - int (Suc n))"
      "\<forall>x. outcome (executeLoop env llm args (Suc n) ?s2 (h @ [Some e]) issued1) = Inl x \<longrightarrow>
        (\<exists>err m st. last new = Some err \<and>
           x = ApiCallError (''API call failed after '' @ showInt (int m) @
                 '' retries. Last error: '' @
                 slice0 1000 (maskCredentials env (rawErrorString err) (Some (credentials args))))
               st)"
      using less [of "Suc n" ?s2 "h @ [Some e]" issued1] by blast
    have l: "int (length (Some e # new)) \<le> max 1 (retryBudget env args - int n)"
      using new(3) again(3) by simp
    have la: "last (Some e # new) = last new"
      using new(2) by simp
    show ?thesis
      using new(1,4) l la again(4)
      by (intro exI [of _ "Some e # new"]) simp
  qed
qed

text \<open>
  An attempt that throws leaves \<open>success\<close> false when it was false before, and the
  \<open>catch\<close> block does not touch it: the loop goes on only with \<open>success\<close> false.
\<close>

lemma checkResponse_Some:
  "\<not> success s \<Longrightarrow> checkResponse llm args n d s = (Some e, s1) \<Longrightarrow> \<not> success s1"
  by (auto simp: checkResponse_def split: if_splits sum.splits)

lemma checkResponse_fst_Some:
  "fst (checkResponse llm args n d s) = Some e \<Longrightarrow>
   success (snd (checkResponse llm args n d s)) \<Longrightarrow> success s"
  by (auto simp: checkResponse_def split: if_splits sum.splits)

lemma tryBlock_Some:
  "\<not> success s \<Longrightarrow> tryBlock env llm args n s issued = (Some e, s1, issued1) \<Longrightarrow> \<not> success s1"
  unfolding tryBlock_def Let_def
  by (auto split: if_splits sum.splits prod.splits dest: checkResponse_fst_Some)

lemma catchBlock_success: "success (catchBlock env args n e s) = success s"
  by (simp add: catchBlock_def Let_def)

lemma outcome_afterLoop_throws:
  "\<not> success s \<Longrightarrow> outcome (afterLoop n s h issued) = Inl (failedAfter n s)"
  by (simp add: afterLoop_def)

lemma failedAfter_catchBlock_exact:
  "\<exists>st. failedAfter k (catchBlock env args n err s) =
     ApiCallError (''API call failed after '' @ showInt (int k) @ '' retries. Last error: '' @
        slice0 1000 (maskCredentials env (rawErrorString err) (Some (credentials args)))) st"
  unfolding failedAfter_def by (simp only: catchBlock_lastError option.case) blast

text \<open>
  \<open>retriesReported k err\<close> is the number in the message of the final error when \<open>k\<close>
  attempts were made and \<open>err\<close> was caught last: the retry count is not raised after an
  \<open>AbortError\<close>, which leaves the loop by \<open>break\<close>.
\<close>

lemma executeLoop_throws:
  assumes "\<not> success s" and "length h = n"
  shows "\<exists>new. attempts (executeLoop env llm args n s h issued) = h @ new \<and> new \<noteq> [] \<and>
     (\<forall>a \<in> set (butlast new). a \<noteq> None) \<and>
     (last new = None \<longrightarrow> (\<exists>res. outcome (executeLoop env llm args n s h issued) = Inr res)) \<and>
     (\<forall>err. last new = Some err \<longrightarrow>
        (\<exists>st. outcome (executeLoop env llm args n s h issued) =
           Inl (ApiCallError (''API call failed after '' @
                  showInt (int (if isAbortError err then length (h @ new) - 1
                                else length (h @ new))) @
                  '' retries. Last error: '' @
                  slice0 1000 (maskCredentials env (rawErrorString err) (Some (credentials args))))
                st)))"
  using assms
proof (induction "nat (retryBudget env args - int n)" arbitrary: n s h issued rule: less_induct)
  case less
  show ?case
  proof (cases rule: executeLoop_cases [of env llm args n s issued h])
    case (succeeded s1 issued1)
    have "success s1" using tryBlock_None [OF succeeded(1)] .
    then have "\<exists>res. outcome (executeLoop env llm args n s h issued) = Inr res"
      using outcome_afterLoop_success [of s1 n "h @ [None]" issued1] succeeded(2) by simp
    moreover have "attempts (executeLoop env llm args n s h issued) = h @ [None]"
      using succeeded(2) by (simp add: attempts_afterLoop)
    ultimately show ?thesis
      by (intro exI [of _ "[None]"]) simp
  next
    case (aborted e s1 issued1)
    let ?s2 = "catchBlock env args n e s1"
    have ns: "\<not> success ?s2"
      using tryBlock_Some [OF less.prems(1) aborted(1)] by (simp add: catchBlock_success)
    have a: "attempts (executeLoop env llm args n s h issued) = h @ [Some e]"
      using aborted(3) by (simp add: attempts_afterLoop)
    have o: "outcome (executeLoop env llm args n s h issued) = Inl (failedAfter n ?s2)"
      using aborted(3) outcome_afterLoop_throws [OF ns] by simp
    obtain st where "failedAfter n ?s2 =
        ApiCallError (''API call failed after '' @ showInt (int n) @ '' retries. Last error: '' @
          slice0 1000 (maskCredentials env (rawErrorString e) (Some (credentials args)))) st"
      using failedAfter_catchBlock_exact [of n env args n e s1] by blast
    then show ?thesis
      using a o aborted(2) less.prems(2)
      by (intro exI [of _ "[Some e]"]) simp
  next
    case (exhausted e s1 issued1)
    let ?s2 = "catchBlock env args n e s1"
    have ns: "\<not> success ?s2"
      using tryBlock_Some [OF less.prems(1) exhausted(1)] by (simp add: catchBlock_success)
    have a: "attempts (executeLoop env llm args n s h issued) = h @ [Some e]"
      using exhausted(4) by (simp add: attempts_afterLoop)
    have o: "outcome (executeLoop env llm args n s h issued) = Inl (failedAfter (Suc n) ?s2)"
      using exhausted(4) outcome_afterLoop_throws [OF ns] by simp
    obtain st where "failedAfter (Suc n) ?s2 =
        ApiCallError (''API call failed after '' @ showInt (int (Suc n)) @
          '' retries. Last error: '' @
          slice0 1000 (maskCredentials env (rawErrorString e) (Some (credentials args)))) st"
      using failedAfter_catchBlock_exact [of "Suc n" env args n e s1] by blast
    then show ?thesis
      using a o exhausted(2) less.prems(2)
      by (intro exI [of _ "[Some e]"]) simp
  next
    case (again e s1 issued1)
    let ?s2 = "catchBlock env args n e s1"
    let ?run = "executeLoop env llm args (Suc n) ?s2 (h @ [Some e]) issued1"
    have ns: "\<not> success ?s2"
      using tryBlock_Some [OF less.prems(1) again(1)] by (simp add: catchBlock_success)
    have m: "nat (retryBudget env args - int (Suc n)) < nat (retryBudget env args - int n)"
      using again(3) by simp
    have lh: "length (h @ [Some e]) = Suc n"
      using less.prems(2) by simp
    obtain new where new:
      "attempts ?run = (h @ [Some e]) @ new" "new \<noteq> []"
      "\<forall>a \<in> set (butlast new). a \<noteq> None"
      "last new = None \<longrightarrow> (\<exists>res. outcome ?run = Inr res)"
      "\<forall>err. last new = Some err \<longrightarrow>
        (\<exists>st. outcome ?run =
           Inl (ApiCallError (''API call failed after '' @
                  showInt (int (if isAbortError err then length ((h @ [Some e]) @ new) - 1
                                else length ((h @ [Some e]) @ new))) @
                  '' retries. Last error: '' @
                  slice0 1000 (maskCredentials env (rawErrorString err) (Some (credentials args))))
                st))"
      using less.hyps [OF m ns lh, of issued1] by (elim exE conjE) (rule that; assumption)
    have eq: "executeLoop env llm args n s h issued = ?run"
      using again(4) .
    have la: "last (Some e # new) = last new" and bl: "butlast (Some e # new) = Some e # butlast new"
      using new(2) by simp_all
    have ap: "(h @ [Some e]) @ new = h @ (Some e # new)"
      by simp
    show ?thesis
      unfolding eq
    proof (intro exI [of _ "Some e # new"] conjI)
      show "attempts ?run = h @ Some e # new"
        using new(1) by simp
      show "Some e # new \<noteq> []"
        by simp
      show "\<forall>a \<in> set (butlast (Some e # new)). a \<noteq> None"
        using new(3) by (simp only: bl) simp
      show "last (Some e # new) = None \<longrightarrow> (\<exists>res. outcome ?run = Inr res)"
        using new(4) by (simp only: la)
      show "\<forall>err. last (Some e # new) = Some err \<longrightarrow>
        (\<exists>st. outcome ?run =
           Inl (ApiCallError (''API call failed after '' @
                  showInt (int (if isAbortError err then length (h @ Some e # new) - 1
                                else length (h @ Some e # new))) @
                  '' retries. Last error: '' @
                  slice0 1000 (maskCredentials env (rawErrorString err) (Some (credentials args))))
                st))"
        using new(5) by (simp only: la ap)
    qed
  qed
qed

subsection \<open>The retry budget and the final error\<close>

text \<open>
  Claim C4, as stated, at a run with \<open>options.retries = 0\<close> against a server that cannot
  be reached: the budget is 0, and the loop still makes one attempt, since the body of a
  \<open>do ... while\<close> loop runs before its condition is tested.
\<close>

theorem zero_retries_one_attempt:
  "retries (options (keyCall (Some 0))) = Some 0 \<and>
   length (attempts (executeApiCall unreachable (mockLlm testEndpoint) (keyCall (Some 0)) [])) = 1 \<and>
   \<not> int (length (attempts (executeApiCall unreachable (mockLlm testEndpoint) (keyCall (Some 0)) [])))
       \<le> 0"
  by code_simp

text \<open>
  Claim C4, amended. The loop makes at least one attempt, and at most as many as the
  budget says when the budget is 1 or more: \<open>options.retries\<close> when it is given,
  \<open>MAX_CALL_RETRIES\<close> otherwise. Only the last attempt can succeed. When it succeeds,
  \<open>executeApiCall\<close> returns. When no attempt succeeds, that is when the last attempt threw
  an error \<open>err\<close>, \<open>executeApiCall\<close> throws an \<open>ApiCallError\<close> whose message is
  \<open>API call failed after m retries. Last error: \<close> followed by the first 1000 characters
  of what \<open>maskCredentials\<close> makes of the text of \<open>err\<close>; \<open>m\<close> is the number of attempts,
  or one less when \<open>err\<close> is an \<open>AbortError\<close>. It throws nothing else.
\<close>

theorem executeApiCall_attempts_and_error:
  "attempts (executeApiCall env llm args issued) \<noteq> [] \<and>
   (\<forall>r. retries (options args) = Some r \<longrightarrow>
      int (length (attempts (executeApiCall env llm args issued))) \<le> max 1 r) \<and>
   (retries (options args) = None \<longrightarrow>
      int (length (attempts (executeApiCall env llm args issued))) \<le> max 1 (MAX_CALL_RETRIES env)) \<and>
   (\<forall>a \<in> set (butlast (attempts (executeApiCall env llm args issued))). a \<noteq> None) \<and>
   (last (attempts (executeApiCall env llm args issued)) = None \<longrightarrow>
      (\<exists>res. outcome (executeApiCall env llm args issued) = Inr res)) \<and>
   (\<forall>err. last (attempts (executeApiCall env llm args issued)) = Some err \<longrightarrow>
      (\<exists>st. outcome (executeApiCall env llm args issued) =
         Inl (ApiCallError (''API call failed after '' @
                showInt (int (if isAbortError err
                              then length (attempts (executeApiCall env llm args issued)) - 1
                              else length (attempts (executeApiCall env llm args issued)))) @
                '' retries. Last error: '' @
                slice0 1000 (maskCredentials env (rawErrorString err) (Some (credentials args))))
              st))) \<and>
   (\<forall>e. outcome (executeApiCall env llm args issued) = Inl e \<longrightarrow>
      (\<exists>err m st. last (attempts (executeApiCall env llm args issued)) = Some err \<and>
         e = ApiCallError (''API call failed after '' @ showInt (int m) @
               '' retries. Last error: '' @
               slice0 1000 (maskCredentials env (rawErrorString err) (Some (credentials args))))
             st))"
proof -
  let ?s0 = "\<lparr>response = None, lastError = None, messages = [], success = False,
        currentEndpoint = endpoint args\<rparr>"
  let ?run = "executeApiCall env llm args issued"
  have run: "?run = executeLoop env llm args 0 ?s0 [] issued"
    by (simp add: executeApiCall_def)
  obtain new where new: "attempts ?run = [] @ new" "new \<noteq> []"
    "int (length new) \<le> max 1 (retryBudget env args - int 0)"
    "\<forall>e. outcome ?run = Inl e \<longrightarrow>
        (\<exists>err m st. last new = Some err \<and>
           e = ApiCallError (''API call failed after '' @ showInt (int m) @
                 '' retries. Last error: '' @
                 slice0 1000 (maskCredentials env (rawErrorString err) (Some (credentials args))))
               st)"
    unfolding run
    using executeLoop_attempts [of env llm args 0 ?s0 "[]" issued] by blast
  have a: "attempts ?run = new" using new(1) by simp
  obtain new' where new': "attempts ?run = [] @ new'"
    "\<forall>a \<in> set (butlast new'). a \<noteq> None"
    "last new' = None \<longrightarrow> (\<exists>res. outcome ?run = Inr res)"
    "\<forall>err. last new' = Some err \<longrightarrow>
        (\<exists>st. outcome ?run =
           Inl (ApiCallError (''API call failed after '' @
                  showInt (int (if isAbortError err then length ([] @ new') - 1
                                else length ([] @ new'))) @
                  '' retries. Last error: '' @
                  slice0 1000 (maskCredentials env (rawErrorString err) (Some (credentials args))))
                st))"
    unfolding run
    using executeLoop_throws [of ?s0 "[]" 0 env llm args issued] by auto
  have n': "new' = new" using new'(1) a by simp
  have b: "\<forall>r. retries (options args) = Some r \<longrightarrow> int (length new) \<le> max 1 r"
    using new(3) by (auto simp: retryBudget_def)
  have c: "retries (options args) = None \<longrightarrow> int (length new) \<le> max 1 (MAX_CALL_RETRIES env)"
    using new(3) by (auto simp: retryBudget_def)
  have d: "\<forall>err. last new = Some err \<longrightarrow>
        (\<exists>st. outcome ?run =
           Inl (ApiCallError (''API call failed after '' @
                  showInt (int (if isAbortError err then length new - 1 else length new)) @
                  '' retries. Last error: '' @
                  slice0 1000 (maskCredentials env (rawErrorString err) (Some (credentials args))))
                st))"
    using new'(4) [unfolded n' append_Nil] .
  show ?thesis
    unfolding a
    using new(2) b c new'(2,3) [unfolded n'] d new(4) by (intro conjI)
qed

theorem executeApiCall_attempts_and_error_witness:
  "retries (options (keyCall (Some 3))) = Some 3 \<and>
   last (attempts (executeApiCall unreachable (mockLlm testEndpoint) (keyCall (Some 3)) [])) =
     Some (Error ''no route for key s3cr3t'') \<and>
   int (length (attempts (executeApiCall unreachable (mockLlm testEndpoint) (keyCall (Some 3)) [])))
     \<le> max 1 3 \<and>
   list_all (\<lambda>a. a \<noteq> None) (butlast (attempts
        (executeApiCall unreachable (mockLlm testEndpoint) (keyCall (Some 3)) []))) \<and>
   (\<exists>st. outcome (executeApiCall unreachable (mockLlm testEndpoint) (keyCall (Some 3)) []) =
      Inl (ApiCallError (''API call failed after '' @
             showInt (int (if isAbortError (Error ''no route for key s3cr3t'')
                then length (attempts
                  (executeApiCall unreachable (mockLlm testEndpoint) (keyCall (Some 3)) [])) - 1
                else length (attempts
                  (executeApiCall unreachable (mockLlm testEndpoint) (keyCall (Some 3)) [])))) @
             '' retries. Last error: '' @
             slice0 1000 (maskCredentials unreachable
                (rawErrorString (Error ''no route for key s3cr3t''))
                (Some (credentials (keyCall (Some 3)))))) st))"
proof -
  let ?run = "executeApiCall unreachable (mockLlm testEndpoint) (keyCall (Some 3)) []"
  have r: "retries (options (keyCall (Some 3))) = Some 3"
    by code_simp
  have l: "last (attempts ?run) = Some (Error ''no route for key s3cr3t'')"
    by code_simp
  show ?thesis
    unfolding list_all_iff
    using r l
      executeApiCall_attempts_and_error [of unreachable "mockLlm testEndpoint" "keyCall (Some 3)" "[]"]
    by blast
qed

text \<open>The final error of that run, computed.\<close>

lemma unreachable_run_outcome:
  "outcome (executeApiCall unreachable (mockLlm testEndpoint) (keyCall (Some 3)) []) =
     Inl (ApiCallError
       ''API call failed after 3 retries. Last error: no route for key {masked_api_key}''
       (Some 500))"
  by code_simp

subsection \<open>The message given to the language model after a failed attempt\<close>

text \<open>
  Claim C3, at a run where the code departs from it: \<open>executeApiCall\<close> with two attempts
  and the credential \<open>api_key = s3cr3t\<close>, against a server that cannot be reached and
  whose error names the key. After the second attempt the conversation holds the user
  message about the error, and the message contains the key as it is: the \<open>catch\<close> block
  builds it from the text of the error as thrown, not from the masked text it logs. The
  message is cut to 2000 characters of the error text. The error that \<open>executeApiCall\<close>
  throws at the end has the key masked.
\<close>

theorem fix_message_not_masked:
  "map_of (credentials (keyCall (Some 2))) ''api_key'' = Some (JStr ''s3cr3t'') \<and>
   conversation (executeApiCall unreachable (mockLlm testEndpoint) (keyCall (Some 2)) []) ! 3 =
     \<lparr>role = ''user'',
      content = ''There was an error with the configuration, please fix: no route for key s3cr3t''\<rparr> \<and>
   outcome (executeApiCall unreachable (mockLlm testEndpoint) (keyCall (Some 2)) []) =
     Inl (ApiCallError
       ''API call failed after 2 retries. Last error: no route for key {masked_api_key}''
       (Some 500))"
  by code_simp

subsection \<open>The value \<open>callEndpoint\<close> returns\<close>

lemma finish_cursor:
  "paginationTypeOf ep = Some CURSOR_BASED \<Longrightarrow> lastResponse s = Some r \<Longrightarrow>
   finish ep s = Inr \<lparr>res_data = JObj [(''next_cursor'', cursor s), (''results'', JArr (allResults s))],
                     statusCode = status r, res_headers = resp_headers r\<rparr>"
  by (simp add: finish_def)

lemma finish_other:
  "paginationTypeOf ep \<noteq> Some CURSOR_BASED \<Longrightarrow> lastResponse s = Some r \<Longrightarrow>
   finish ep s = Inr \<lparr>res_data = (case allResults s of [x] \<Rightarrow> x | xs \<Rightarrow> JArr xs),
                     statusCode = status r, res_headers = resp_headers r\<rparr>"
  by (simp add: finish_def)

text \<open>
  In cursor-based mode every result of the HTTP path has the shape
  \<open>{next_cursor, results: [...]}\<close>: \<open>allResults\<close> is an array throughout, so the branch of
  the \<open>return\<close> statement that spreads an object is never taken.
\<close>

lemma callEndpointLoop_cursor_shape:
  assumes "paginationTypeOf (endpoint args) = Some CURSOR_BASED"
    and "\<forall>s. \<not> isPostgresHost (processedUrlHost env args s)"
    and "fst (callEndpointLoop env args n s issued) = Inr res"
  shows "\<exists>c xs. res_data res = JObj [(''next_cursor'', c), (''results'', JArr xs)]"
  using assms
proof (induction env args n s issued rule: callEndpointLoop.induct)
  case (1 env args n s issued)
  show ?case
  proof (cases rule: callEndpointLoop_cases [of s n env args issued])
    case finished
    then have "finish (endpoint args) s = Inr res" using "1.prems"(3) by simp
    then show ?thesis
      using "1.prems"(1) by (auto simp: finish_def split: option.splits)
  next
    case postgres
    then show ?thesis using "1.prems"(2) by simp
  next
    case (axiosError e)
    then show ?thesis using "1.prems"(3) by simp
  next
    case (handleError r e)
    then show ?thesis using "1.prems"(3) by simp
  next
    case (continue r s')
    then have "fst (callEndpointLoop env args (Suc n) s' (issued @ [axiosConfig env args s])) =
        Inr res"
      using "1.prems"(3) by simp
    then show ?thesis
      using "1.IH" [OF _ _ continue(4) continue(5) "1.prems"(1,2)] continue(1,2,3) by simp
  qed
qed

text \<open>The cursor scenario of the specification, with page size 2.\<close>

lemma cursor_scenario:
  "callEndpoint (mockImports cursorPages) cursorCall [] =
     (Inr \<lparr>res_data = JObj [(''next_cursor'', JNull),
                             (''results'', JArr [item 1, item 2, item 3])],
           statusCode = 200, res_headers = []\<rparr>,
      [axiosConfig (mockImports cursorPages) cursorCall initialState,
       axiosConfig (mockImports cursorPages) cursorCall initialState])"
  by code_simp

text \<open>The page scenario: two pages, three items, two requests.\<close>

lemma page_scenario:
  "fst (callEndpoint (mockImports twoPages) pageBasedCall []) =
     Inr \<lparr>res_data = JArr [item 1, item 2, item 3], statusCode = 200, res_headers = []\<rparr>"
  by code_simp

text \<open>
  Claim C6, at a run where the code departs from it: cursor-based pagination against an
  endpoint that answers with the single object \<open>{id: 1, name: "one"}\<close>. The claim gives
  \<open>{next_cursor, id: 1, name: "one"}\<close>; the code returns the object as the one element
  of \<open>results\<close>.
\<close>

theorem cursor_single_object_in_results:
  "fst (callEndpoint (mockImports singleObjectPage) singleObjectCall []) =
     Inr \<lparr>res_data = JObj [(''next_cursor'', JUndefined),
                            (''results'', JArr [JObj [(''id'', JNum 1), (''name'', JStr ''one'')]])],
          statusCode = 200, res_headers = []\<rparr>"
  by code_simp

section \<open>Properties of the run table\<close>

lemma notBefore_total: "\<not> notBefore a b \<Longrightarrow> notBefore b a"
  by (cases a; cases b) auto

lemma notBefore_trans: "notBefore a b \<Longrightarrow> notBefore b c \<Longrightarrow> notBefore a c"
  by (cases a; cases b; cases c) auto

lemma mset_insertDesc: "mset (insertDesc r qs) = add_mset r (mset qs)"
  by (induction qs) auto

lemma set_insertDesc: "set (insertDesc r qs) = insert r (set qs)"
  by (induction qs) auto

lemma sorted_insertDesc:
  "sorted_wrt (\<lambda>a b. notBefore (started_at a) (started_at b)) qs \<Longrightarrow>
   sorted_wrt (\<lambda>a b. notBefore (started_at a) (started_at b)) (insertDesc r qs)"
proof (induction qs)
  case Nil
  then show ?case by simp
next
  case (Cons q qs)
  show ?case
  proof (cases "notBefore (started_at r) (started_at q)")
    case True
    then have "\<forall>x \<in> set qs. notBefore (started_at r) (started_at x)"
      using Cons.prems notBefore_trans by auto
    with True Cons.prems show ?thesis by simp
  next
    case False
    then have "notBefore (started_at q) (started_at r)"
      by (rule notBefore_total)
    with False Cons show ?thesis
      by (auto simp: set_insertDesc)
  qed
qed

lemma mset_orderByStartedAtDesc: "mset (orderByStartedAtDesc rows) = mset rows"
  unfolding orderByStartedAtDesc_def
  by (induction rows) (simp_all add: mset_insertDesc)

lemma sorted_orderByStartedAtDesc:
  "sorted_wrt (\<lambda>a b. notBefore (started_at a) (started_at b)) (orderByStartedAtDesc rows)"
  unfolding orderByStartedAtDesc_def
  by (induction rows) (simp_all add: sorted_insertDesc)

lemma set_orderByStartedAtDesc: "set (orderByStartedAtDesc rows) = set rows"
  using mset_orderByStartedAtDesc by (metis set_mset_mset)

lemma length_orderByStartedAtDesc: "length (orderByStartedAtDesc rows) = length rows"
  using mset_orderByStartedAtDesc by (metis size_mset)

lemma descendingOrder_orderByStartedAtDesc: "descendingOrder orderByStartedAtDesc"
  by (simp add: descendingOrder_def mset_orderByStartedAtDesc sorted_orderByStartedAtDesc)

lemma sorted_wrt_take_drop:
  "sorted_wrt R xs \<Longrightarrow> sorted_wrt R (take n (drop m xs))"
  by (simp add: sorted_wrt_drop sorted_wrt_take)

lemma startedAt_rowItem: "startedAt (rowItem r) = startedAt (row_data r)"
  by (simp add: rowItem_def)

lemma tableOk_row: "tableOk tbl \<Longrightarrow> r \<in> set tbl \<Longrightarrow> started_at r = startedAt (row_data r)"
  by (simp add: tableOk_def list_all_iff)

lemma configOk_row: "configOk tbl \<Longrightarrow> r \<in> set tbl \<Longrightarrow> config_id r = run_config_id (row_data r)"
  by (simp add: configOk_def list_all_iff)

lemma sorted_items:
  assumes "sorted_wrt (\<lambda>a b. notBefore (started_at a) (started_at b)) rows"
    and "\<forall>r \<in> set rows. started_at r = startedAt (row_data r)"
  shows "sorted_wrt (\<lambda>a b. notBefore (startedAt a) (startedAt b)) (map rowItem rows)"
  using assms
  by (induction rows) (auto simp: startedAt_rowItem)

text \<open>\<open>createRun\<close> keeps \<open>tableOk\<close>, and the empty table has it.\<close>

lemma tableOk_empty: "tableOk []"
  by (simp add: tableOk_def)

lemma tableOk_createRun: "tableOk tbl \<Longrightarrow> tableOk (createRun run orgId tbl)"
  by (auto simp: tableOk_def createRun_def Let_def list_all_iff)

lemma whereClause_org: "whereClause configId orgId r \<Longrightarrow> org_id r = orgParam orgId"
  by (simp add: whereClause_def)

lemma whereClause_config:
  "whereClause configId orgId r \<Longrightarrow> configId = Some c \<Longrightarrow> c \<noteq> [] \<Longrightarrow> config_id r = Some c"
  by (cases c) (simp_all add: whereClause_def)

text \<open>
  What \<open>listRuns\<close> does on a table that has \<open>tableOk\<close>, for a limit and an offset that are
  not negative and whatever order the engine gives to rows with equal timestamps: the
  items are the stored runs, with the id of their row, of a slice of the matching rows in
  descending order of \<open>started_at\<close>; they are in descending order of \<open>startedAt\<close>; and
  \<open>total\<close> is the number of all rows of the organisation whose column \<open>config_id\<close> is the
  filter. On a table that also has \<open>configOk\<close> every item is a run of the configuration
  asked for.
\<close>

lemma listRuns_page:
  assumes "descendingOrder ord" and "tableOk tbl" and "0 \<le> limit" and "0 \<le> offs"
  shows "\<exists>ordered.
     mset ordered = mset (filter (\<lambda>r. org_id r = orgParam orgId \<and>
        (\<forall>c. configId = Some c \<and> c \<noteq> [] \<longrightarrow> config_id r = Some c)) tbl) \<and>
     sorted_wrt (\<lambda>a b. notBefore (started_at a) (started_at b)) ordered \<and>
     listRuns ord limit offs configId orgId tbl =
       Inr \<lparr>items = map (\<lambda>r. (row_data r)\<lparr>run_id := row_id r\<rparr>)
                       (take (nat limit) (drop (nat offs) ordered)),
            total = length (filter (\<lambda>r. org_id r = orgParam orgId \<and>
              (\<forall>c. configId = Some c \<and> c \<noteq> [] \<longrightarrow> config_id r = Some c)) tbl)\<rparr> \<and>
     sorted_wrt (\<lambda>a b. notBefore (startedAt a) (startedAt b))
       (map (\<lambda>r. (row_data r)\<lparr>run_id := row_id r\<rparr>)
            (take (nat limit) (drop (nat offs) ordered))) \<and>
     (configOk tbl \<longrightarrow>
        (\<forall>r \<in> set (take (nat limit) (drop (nat offs) ordered)).
           \<forall>c. configId = Some c \<and> c \<noteq> [] \<longrightarrow>
             run_config_id ((row_data r)\<lparr>run_id := row_id r\<rparr>) = Some c))"
proof -
  let ?W = "whereClause configId orgId"
  let ?P = "\<lambda>r. org_id r = orgParam orgId \<and>
        (\<forall>c. configId = Some c \<and> c \<noteq> [] \<longrightarrow> config_id r = Some c)"
  let ?all = "ord (filter ?W tbl)"
  let ?rows = "take (nat limit) (drop (nat offs) ?all)"
  have weq: "\<And>r. ?W r = ?P r"
    by (auto simp: whereClause_def split: option.splits list.splits)
  have feq: "filter ?W tbl = filter ?P tbl"
    by (rule filter_cong) (simp_all only: weq)
  have m: "mset ?all = mset (filter ?W tbl)"
    and sall: "sorted_wrt (\<lambda>a b. notBefore (started_at a) (started_at b)) ?all"
    using assms(1) by (simp_all add: descendingOrder_def)
  have ri: "map rowItem ?rows = map (\<lambda>r. (row_data r)\<lparr>run_id := row_id r\<rparr>) ?rows"
    by (rule map_cong) (simp_all add: rowItem_def)
  have res: "listRuns ord limit offs configId orgId tbl =
       Inr \<lparr>items = map (\<lambda>r. (row_data r)\<lparr>run_id := row_id r\<rparr>) ?rows,
            total = length (filter ?P tbl)\<rparr>"
    using assms(3,4) by (simp add: listRuns_def Let_def ri feq [symmetric])
  have sub_all: "set ?all = set (filter ?W tbl)"
    using m by (metis set_mset_mset)
  have rows_sub: "set ?rows \<subseteq> set ?all"
    by (meson in_set_dropD in_set_takeD subsetI)
  have okrows: "\<forall>r \<in> set ?rows. started_at r = startedAt (row_data r)"
    using assms(2) rows_sub sub_all by (auto simp: tableOk_row)
  have s1: "sorted_wrt (\<lambda>a b. notBefore (startedAt a) (startedAt b))
       (map (\<lambda>r. (row_data r)\<lparr>run_id := row_id r\<rparr>) ?rows)"
    using sorted_items [of ?rows] sall okrows
    by (simp add: sorted_wrt_take_drop ri [symmetric])
  have s2: "configOk tbl \<longrightarrow>
        (\<forall>r \<in> set ?rows. \<forall>c. configId = Some c \<and> c \<noteq> [] \<longrightarrow>
             run_config_id ((row_data r)\<lparr>run_id := row_id r\<rparr>) = Some c)"
  proof (intro impI ballI allI)
    fix r c
    assume ok: "configOk tbl" and r: "r \<in> set ?rows" and c: "configId = Some c \<and> c \<noteq> []"
    have rt: "r \<in> set tbl" and rw: "?W r"
      using r rows_sub sub_all by auto
    have "config_id r = Some c"
      using whereClause_config [OF rw] c by blast
    then show "run_config_id ((row_data r)\<lparr>run_id := row_id r\<rparr>) = Some c"
      using configOk_row [OF ok rt] by simp
  qed
  have m': "mset ?all = mset (filter ?P tbl)"
    using m feq by simp
  show ?thesis
    using m' sall res s1 s2 by (intro exI [of _ ?all] conjI)
qed

text \<open>The three runs, listed: the second page of \<open>config1\<close>, and all runs.\<close>

lemma listRuns_threeRuns:
  "listRuns orderByStartedAtDesc 2 1 (Some ''config1'') (Some ''org'') threeRuns =
     Inr \<lparr>items = [run1], total = 2\<rparr>"
  "listRuns orderByStartedAtDesc 10 0 None (Some ''org'') threeRuns =
     Inr \<lparr>items = [run2, run3, run1], total = 3\<rparr>"
  "tableOk threeRuns \<and> configOk threeRuns"
  by code_simp+

text \<open>
  Claim C8, at a table where the code departs from it. A run is stored under \<open>config1\<close>
  and then stored again, with the same id, as a run of \<open>config2\<close>: \<open>createRun\<close> replaces
  the stored run and leaves the column \<open>config_id\<close> as it was. \<open>listRuns\<close> filtered by
  \<open>config1\<close> then returns the run, whose configuration is \<open>config2\<close>, with total 1; filtered
  by \<open>config2\<close> it returns nothing, with total 0. The table holds one row, so the order the
  engine gives to the rows has no part in it.
\<close>

theorem listRuns_stale_config_id:
  "run_config_id run1Moved = Some ''config2'' \<and>
   listRuns orderByStartedAtDesc 10 0 (Some ''config1'') (Some ''org'') movedRun =
     Inr \<lparr>items = [run1Moved], total = 1\<rparr> \<and>
   listRuns orderByStartedAtDesc 10 0 (Some ''config2'') (Some ''org'') movedRun =
     Inr \<lparr>items = [], total = 0\<rparr> \<and>
   tableOk movedRun \<and> \<not> configOk movedRun"
  by code_simp

section \<open>Properties of \<open>getOAuthTokenUrl\<close>\<close>

lemma getOAuthTokenUrlIn_credentials:
  "credentials_token_url i = Some t \<Longrightarrow> t \<noteq> [] \<Longrightarrow> getOAuthTokenUrlIn cat i = t"
  by (cases t) (simp_all add: getOAuthTokenUrlIn_def)

lemma getOAuthTokenUrlIn_catalog:
  assumes "credentials_token_url i = None \<or> credentials_token_url i = Some []"
    and "cat = pre @ (key, config) # post"
    and "matchesKey i (key, config)"
    and "\<forall>e \<in> set pre. \<not> matchesKey i e"
  shows "getOAuthTokenUrlIn cat i =
     (case oauth config of
        Some oa \<Rightarrow> if tokenUrl oa \<noteq> [] then tokenUrl oa else defaultTokenUrl i
      | None \<Rightarrow> defaultTokenUrl i)"
proof -
  have "find (matchesKey i) cat = Some (key, config)"
    using assms(2-4) find_first by metis
  then show ?thesis
    using assms(1) by (auto simp: getOAuthTokenUrlIn_def)
qed

lemma getOAuthTokenUrlIn_fallback:
  assumes "credentials_token_url i = None \<or> credentials_token_url i = Some []"
    and "\<forall>e \<in> set cat. \<not> matchesKey i e"
  shows "getOAuthTokenUrlIn cat i = defaultTokenUrl i"
proof -
  have "find (matchesKey i) cat = None"
    using assms(2) by (simp add: find_None_iff)
  then show ?thesis
    using assms(1) by (auto simp: getOAuthTokenUrlIn_def)
qed

lemma matchesKey_iff:
  "matchesKey i (key, config) \<longleftrightarrow>
     integration_id i = key \<or> (\<exists>ps ss. integration_urlHost i = ps @ key @ ss)"
  by (simp add: matchesKey_def includes_iff)

text \<open>
  What the code does. \<open>getOAuthTokenUrl\<close> returns \<open>credentials.token_url\<close> when it is a
  non-empty string. Otherwise the first catalog entry, in catalog order, whose key is the
  integration's id or occurs anywhere in its \<open>urlHost\<close> decides: the result is that
  entry's \<open>oauth.tokenUrl\<close> when it has one, and the fallback \<open>urlHost\<close> followed by
  \<open>/oauth/token\<close> when it has none or when no entry matches.
\<close>

lemma getOAuthTokenUrl_first_match:
  "(\<forall>t. credentials_token_url i = Some t \<and> t \<noteq> [] \<longrightarrow> getOAuthTokenUrl i = t) \<and>
   (\<forall>pre key config post.
      (credentials_token_url i = None \<or> credentials_token_url i = Some []) \<and>
      integrations = pre @ (key, config) # post \<and>
      (integration_id i = key \<or> (\<exists>ps ss. integration_urlHost i = ps @ key @ ss)) \<and>
      (\<forall>e \<in> set pre. \<not> (integration_id i = fst e \<or> (\<exists>ps ss. integration_urlHost i = ps @ fst e @ ss)))
      \<longrightarrow> getOAuthTokenUrl i =
        (case oauth config of
           Some oa \<Rightarrow> if tokenUrl oa \<noteq> [] then tokenUrl oa else integration_urlHost i @ ''/oauth/token''
         | None \<Rightarrow> integration_urlHost i @ ''/oauth/token'')) \<and>
   ((credentials_token_url i = None \<or> credentials_token_url i = Some []) \<and>
      (\<forall>e \<in> set integrations.
         \<not> (integration_id i = fst e \<or> (\<exists>ps ss. integration_urlHost i = ps @ fst e @ ss)))
      \<longrightarrow> getOAuthTokenUrl i = integration_urlHost i @ ''/oauth/token'')"
proof (intro conjI allI impI)
  fix t assume "credentials_token_url i = Some t \<and> t \<noteq> []"
  then show "getOAuthTokenUrl i = t"
    by (simp add: getOAuthTokenUrl_def getOAuthTokenUrlIn_credentials)
next
  fix pre key config post
  assume a: "(credentials_token_url i = None \<or> credentials_token_url i = Some []) \<and>
      integrations = pre @ (key, config) # post \<and>
      (integration_id i = key \<or> (\<exists>ps ss. integration_urlHost i = ps @ key @ ss)) \<and>
      (\<forall>e \<in> set pre. \<not> (integration_id i = fst e \<or> (\<exists>ps ss. integration_urlHost i = ps @ fst e @ ss)))"
  have m: "matchesKey i (key, config)"
    using a by (simp add: matchesKey_iff)
  have n: "\<forall>e \<in> set pre. \<not> matchesKey i e"
  proof
    fix e assume "e \<in> set pre"
    then have "\<not> (integration_id i = fst e \<or> (\<exists>ps ss. integration_urlHost i = ps @ fst e @ ss))"
      using a by blast
    then show "\<not> matchesKey i e"
      using matchesKey_iff [of i "fst e" "snd e"] by simp
  qed
  show "getOAuthTokenUrl i =
        (case oauth config of
           Some oa \<Rightarrow> if tokenUrl oa \<noteq> [] then tokenUrl oa else integration_urlHost i @ ''/oauth/token''
         | None \<Rightarrow> integration_urlHost i @ ''/oauth/token'')"
    using getOAuthTokenUrlIn_catalog [of i integrations pre key config post] a m n
    by (simp add: getOAuthTokenUrl_def defaultTokenUrl_def split: option.split)
next
  assume a: "(credentials_token_url i = None \<or> credentials_token_url i = Some []) \<and>
      (\<forall>e \<in> set integrations.
         \<not> (integration_id i = fst e \<or> (\<exists>ps ss. integration_urlHost i = ps @ fst e @ ss)))"
  have n: "\<forall>e \<in> set integrations. \<not> matchesKey i e"
  proof
    fix e assume "e \<in> set integrations"
    then have "\<not> (integration_id i = fst e \<or> (\<exists>ps ss. integration_urlHost i = ps @ fst e @ ss))"
      using a by blast
    then show "\<not> matchesKey i e"
      using matchesKey_iff [of i "fst e" "snd e"] by simp
  qed
  show "getOAuthTokenUrl i = integration_urlHost i @ ''/oauth/token''"
    using getOAuthTokenUrlIn_fallback [of i integrations] a n
    by (simp add: getOAuthTokenUrl_def defaultTokenUrl_def)
qed

text \<open>The four cases of the token-URL tests of the repository.\<close>

lemma getOAuthTokenUrl_tests:
  "getOAuthTokenUrl \<lparr>integration_id = ''github'', integration_urlHost = ''https://api.github.com'',
     integration_credentials = Some []\<rparr> = ''https://github.com/login/oauth/access_token''"
  "getOAuthTokenUrl ig_host = ''https://github.com/login/oauth/access_token''"
  "getOAuthTokenUrl ig_custom = ''https://custom.com/oauth/token''"
  "getOAuthTokenUrl ig_unknown = ''https://api.unknown.com/oauth/token''"
  by code_simp+

text \<open>
  Claim C9, at integrations where the code departs from it. The integration
  \<open>squarespace\<close> matches the catalog entry \<open>squarespace\<close> by its id, and by its host, and
  that entry has a token URL; but the key \<open>square\<close> of an earlier entry occurs in the host
  too, and the code returns the token URL of Square. In the same way \<open>instagram\<close> gets the
  token URL of the entry \<open>facebook\<close>, not its own, and \<open>whatsapp\<close>, whose entry has no
  token URL, gets the one of \<open>facebook\<close> where the claim gives the fallback.
\<close>

theorem getOAuthTokenUrl_takes_earlier_entry:
  "map_option oauth (map_of integrations ''squarespace'') =
     Some (Some \<lparr>tokenUrl = ''https://login.squarespace.com/api/1/login/oauth/provider/tokens''\<rparr>) \<and>
   getOAuthTokenUrl ig_squarespace = ''https://connect.squareup.com/oauth2/token'' \<and>
   map_option oauth (map_of integrations ''instagram'') =
     Some (Some \<lparr>tokenUrl = ''https://graph.facebook.com/v23.0/oauth/access_token''\<rparr>) \<and>
   getOAuthTokenUrl ig_instagram = ''https://graph.facebook.com/v18.0/oauth/access_token'' \<and>
   map_option oauth (map_of integrations ''whatsapp'') = Some None \<and>
   getOAuthTokenUrl ig_whatsapp = ''https://graph.facebook.com/v18.0/oauth/access_token''"
  by code_simp

end
